theory Spec2Isabelle
  imports Main
begin

section \<open>Values, exceptions and configuration\<close>

text \<open>
  A decoded JSON document, as \<open>json.loads\<close> hands it to the worker. An object is an
  association list read with \<open>map_of\<close>. Numbers are integers here: a non-integer
  number behaves as a non-zero integer does on every path of the worker (it is truthy and
  not subscriptable), and is left out of the model.
\<close>

datatype json =
    JNull
  | JBool bool
  | JInt int
  | JStr string
  | JArr "json list"
  | JObj "(string \<times> json) list"

text \<open>
  The exceptions the worker can meet. All of them are subclasses of Python's
  \<open>Exception\<close>; \<open>ConnectionError\<close> is \<open>redis.ConnectionError\<close>, \<open>ResponseError\<close>
  any other error reply of the store, \<open>OtherError\<close> any other exception of a collaborator.
\<close>

datatype exn =
    ConnectionError string
  | ResponseError string
  | ValueError string
  | TypeError string
  | AttributeError string
  | OtherError string

fun str_exn :: "exn \<Rightarrow> string" where
  "str_exn (ConnectionError m) = m"
| "str_exn (ResponseError m) = m"
| "str_exn (ValueError m) = m"
| "str_exn (TypeError m) = m"
| "str_exn (AttributeError m) = m"
| "str_exn (OtherError m) = m"

fun is_ConnectionError :: "exn \<Rightarrow> bool" where
  "is_ConnectionError (ConnectionError m) = True"
| "is_ConnectionError x = False"

text \<open>The module-level configuration of \<open>worker.py\<close>, read from the environment.\<close>

record config =
  QUEUE_NAME :: string
  RESULT_PREFIX :: string
  RESULT_TTL :: int
  BRPOP_TIMEOUT :: int
  WORKER_ID :: string

definition default_config :: config where
  "default_config =
     \<lparr>QUEUE_NAME = ''rag:jobs'', RESULT_PREFIX = ''rag:result:'', RESULT_TTL = 3600,
      BRPOP_TIMEOUT = 5, WORKER_ID = ''worker-local''\<rparr>"

text \<open>
  The library functions the worker calls, taken as parameters: \<open>json.loads\<close>
  (\<open>None\<close> is \<open>JSONDecodeError\<close>), \<open>json.dumps\<close> (taken to succeed on
  what it is given: the sources of the pipeline and the jobs of the producer), and
  the text Python's string formatting gives a decoded value that is not a string.
\<close>

record lib =
  json_loads :: "string \<Rightarrow> json option"
  json_dumps :: "json \<Rightarrow> string"
  py_str :: "json \<Rightarrow> string"

text \<open>\<open>f"{v}"\<close>: a string is inserted as it is.\<close>

definition fmt :: "lib \<Rightarrow> json \<Rightarrow> string" where
  "fmt L v = (case v of JStr s \<Rightarrow> s | _ \<Rightarrow> py_str L v)"

text \<open>\<open>d.get(k, default)\<close> on a decoded object.\<close>

definition dict_get :: "(string \<times> json) list \<Rightarrow> string \<Rightarrow> json \<Rightarrow> json" where
  "dict_get d k dflt = (case map_of d k of None \<Rightarrow> dflt | Some v \<Rightarrow> v)"

text \<open>Python's truth value of a decoded value, as \<open>not question\<close> tests it.\<close>

fun truthy :: "json \<Rightarrow> bool" where
  "truthy JNull = False"
| "truthy (JBool b) = b"
| "truthy (JInt n) = (n \<noteq> 0)"
| "truthy (JStr s) = (s \<noteq> [])"
| "truthy (JArr xs) = (xs \<noteq> [])"
| "truthy (JObj kvs) = (kvs \<noteq> [])"

fun py_type_name :: "json \<Rightarrow> string" where
  "py_type_name JNull = ''NoneType''"
| "py_type_name (JBool b) = ''bool''"
| "py_type_name (JInt n) = ''int''"
| "py_type_name (JStr s) = ''str''"
| "py_type_name (JArr xs) = ''list''"
| "py_type_name (JObj kvs) = ''dict''"

text \<open>
  \<open>question[:50]\<close>: strings and lists are sliced, a dict rejects the slice as a key, the
  other values are not subscriptable. The slice only goes into the message the worker
  prints; it counts the characters of the model's strings.
\<close>

definition quoted :: "string \<Rightarrow> string" where
  "quoted s = [CHR 0x27] @ s @ [CHR 0x27]"

fun slice50 :: "json \<Rightarrow> exn + json" where
  "slice50 (JStr s) = Inr (JStr (take 50 s))"
| "slice50 (JArr xs) = Inr (JArr (take 50 xs))"
| "slice50 (JObj kvs) = Inl (TypeError (''unhashable type: '' @ quoted ''slice''))"
| "slice50 v = Inl (TypeError (quoted (py_type_name v) @ '' object is not subscriptable''))"

section \<open>The shared store, the metrics and the trace\<close>

text \<open>The Redis commands the repository issues, with their arguments.\<close>

datatype command =
    BRPOP string int
  | HSET string "(string \<times> string) list"
  | EXPIRE string int

text \<open>The places of \<open>worker.py\<close> that call the store; a fault is injected per place.\<close>

datatype site = At_brpop | At_result_hset | At_result_expire | At_error_hset | At_error_expire

text \<open>The messages the worker prints, by kind, with the values formatted into them.\<close>

datatype log =
    Log_signal int
  | Log_processing string json
  | Log_result_stored string
  | Log_error_stored string
  | Log_invalid_json
  | Log_job_failed string string
  | Log_job_completed string
  | Log_redis_connection_error string
  | Log_unexpected_error string
  | Log_shutdown_complete

datatype event =
    Cmd command
  | Inflight_inc
  | Inflight_dec
  | Processed_inc string
  | Duration_observe
  | Print log
  | Sleep nat

text \<open>
  The state one worker acts on: the Redis list \<open>QUEUE_NAME\<close> (its head is the left end),
  the hashes under the result keys and their time-to-live, the Prometheus metrics of
  \<open>metrics.py\<close> (the gauge and the counters as integers, the histogram as its number
  of observations), the module-level \<open>_shutdown\<close> flag, and the trace of everything the
  worker did, oldest first.
\<close>

record state =
  queue :: "string list"
  store :: "string \<rightharpoonup> (string \<rightharpoonup> string)"
  ttl :: "string \<rightharpoonup> int"
  agent_inflight :: int
  agent_jobs_processed :: "string \<Rightarrow> nat"
  agent_job_duration :: nat
  shutdown :: bool
  trace :: "event list"

definition emit :: "event \<Rightarrow> state \<Rightarrow> state" where
  "emit ev s = s\<lparr>trace := trace s @ [ev]\<rparr>"

subsection \<open>What the Redis commands do\<close>

text \<open>
  \<open>LPUSH\<close> inserts at the head of the list, \<open>BRPOP\<close> removes the tail element and
  answers nil when the list stays empty until the timeout (taken as positive, as the
  default 5 is). \<open>HSET\<close> sets the given fields of the hash at the key, creating the
  hash when the key is absent and leaving its other fields as they are. \<open>EXPIRE\<close>
  sets the time-to-live of an existing key and deletes the key when the time is not
  positive.
\<close>

definition redis_lpush :: "string \<Rightarrow> string list \<Rightarrow> string list" where
  "redis_lpush x q = x # q"

definition redis_brpop :: "string list \<Rightarrow> string option \<times> string list" where
  "redis_brpop q = (if q = [] then (None, q) else (Some (last q), butlast q))"

definition redis_hset :: "string \<Rightarrow> (string \<times> string) list \<Rightarrow> state \<Rightarrow> state" where
  "redis_hset key mapping s =
     s\<lparr>store := (store s)(key \<mapsto>
         (case store s key of None \<Rightarrow> Map.empty | Some h \<Rightarrow> h) ++ map_of mapping)\<rparr>"

definition redis_expire :: "string \<Rightarrow> int \<Rightarrow> state \<Rightarrow> state" where
  "redis_expire key seconds s =
     (if store s key = None then s
      else if seconds \<le> 0 then s\<lparr>store := (store s)(key := None), ttl := (ttl s)(key := None)\<rparr>
      else s\<lparr>ttl := (ttl s)(key \<mapsto> seconds)\<rparr>)"

subsection \<open>metrics.py\<close>

definition increment_inflight :: "state \<Rightarrow> state" where
  "increment_inflight s = emit Inflight_inc (s\<lparr>agent_inflight := agent_inflight s + 1\<rparr>)"

definition decrement_inflight :: "state \<Rightarrow> state" where
  "decrement_inflight s = emit Inflight_dec (s\<lparr>agent_inflight := agent_inflight s - 1\<rparr>)"

definition labels_inc :: "string \<Rightarrow> state \<Rightarrow> state" where
  "labels_inc l s =
     emit (Processed_inc l)
       (s\<lparr>agent_jobs_processed := (agent_jobs_processed s)(l := Suc (agent_jobs_processed s l))\<rparr>)"

definition record_job_success :: "state \<Rightarrow> state" where
  "record_job_success s = labels_inc ''ok'' s"

definition record_job_error :: "state \<Rightarrow> state" where
  "record_job_error s = labels_inc ''err'' s"

definition observe :: "state \<Rightarrow> state" where
  "observe s = emit Duration_observe (s\<lparr>agent_job_duration := Suc (agent_job_duration s)\<rparr>)"

section \<open>worker.py\<close>

text \<open>
  What the surroundings decide during one iteration of the loop: whether the store
  rejects the command issued at a place (and with which exception), what
  \<open>rag_engine.answer\<close> does with the question, the two readings of the clock, and
  whether a termination signal arrives, where, and which.
\<close>

datatype sigpoint = In_pop | In_job | In_accounting

record env =
  redis_fault :: "site \<Rightarrow> exn option"
  rag_answer :: "json \<Rightarrow> exn + (string \<times> json)"
  utcnow_completed :: string
  utcnow_error :: string
  signal_at :: "(sigpoint \<times> int) option"

definition signal_handler :: "int \<Rightarrow> state \<Rightarrow> state" where
  "signal_handler signum s = (emit (Print (Log_signal signum)) s)\<lparr>shutdown := True\<rparr>"

text \<open>
  The handler runs at the point of the iteration where the signal arrives. Three points
  are told apart: while the worker waits in the pop, once a job is in flight (after the
  gauge is incremented, before \<open>process_job\<close>), and before the \<open>finally\<close> clause. A
  signal placed at a point the pass does not reach is not delivered in that pass.
\<close>

definition deliver :: "env \<Rightarrow> sigpoint \<Rightarrow> state \<Rightarrow> state" where
  "deliver e p s =
     (case signal_at e of
        None \<Rightarrow> s
      | Some (p', signum) \<Rightarrow> if p' = p then signal_handler signum s else s)"

subsection \<open>The client calls\<close>

definition client_brpop :: "config \<Rightarrow> env \<Rightarrow> state \<Rightarrow> (exn + string option) \<times> state" where
  "client_brpop c e s =
     (let s1 = emit (Cmd (BRPOP (QUEUE_NAME c) (BRPOP_TIMEOUT c))) s in
      case redis_fault e At_brpop of
        Some x \<Rightarrow> (Inl x, s1)
      | None \<Rightarrow> (let (r, q) = redis_brpop (queue s1) in (Inr r, s1\<lparr>queue := q\<rparr>)))"

definition client_hset ::
  "env \<Rightarrow> site \<Rightarrow> string \<Rightarrow> (string \<times> string) list \<Rightarrow> state \<Rightarrow> exn option \<times> state" where
  "client_hset e at key mapping s =
     (let s1 = emit (Cmd (HSET key mapping)) s in
      case redis_fault e at of
        Some x \<Rightarrow> (Some x, s1)
      | None \<Rightarrow> (None, redis_hset key mapping s1))"

definition client_expire ::
  "env \<Rightarrow> site \<Rightarrow> string \<Rightarrow> int \<Rightarrow> state \<Rightarrow> exn option \<times> state" where
  "client_expire e at key seconds s =
     (let s1 = emit (Cmd (EXPIRE key seconds)) s in
      case redis_fault e at of
        Some x \<Rightarrow> (Some x, s1)
      | None \<Rightarrow> (None, redis_expire key seconds s1))"

subsection \<open>process_job, store_result, store_error\<close>

record job_result =
  r_job_id :: json
  r_status :: string
  r_question :: json
  r_answer :: string
  r_sources :: json
  r_worker_id :: string
  r_completed_at :: string

definition process_job ::
  "config \<Rightarrow> lib \<Rightarrow> env \<Rightarrow> (string \<times> json) list \<Rightarrow> state \<Rightarrow> (exn + job_result) \<times> state" where
  "process_job c L e job_data s =
     (let job_id = dict_get job_data ''job_id'' (JStr ''unknown'');
          question = dict_get job_data ''question'' (JStr [])
      in if \<not> truthy question then (Inl (ValueError ''Job missing 'question' field''), s)
         else case slice50 question of
           Inl x \<Rightarrow> (Inl x, s)
         | Inr q50 \<Rightarrow>
             (let s1 = emit (Print (Log_processing (fmt L job_id) q50)) s in
              case rag_answer e question of
                Inl x \<Rightarrow> (Inl x, s1)
              | Inr (a, srcs) \<Rightarrow>
                  (Inr \<lparr>r_job_id = job_id, r_status = ''completed'', r_question = question,
                        r_answer = a, r_sources = srcs, r_worker_id = WORKER_ID c,
                        r_completed_at = utcnow_completed e\<rparr>, s1)))"

definition result_mapping :: "lib \<Rightarrow> job_result \<Rightarrow> (string \<times> string) list" where
  "result_mapping L r =
     [(''status'', r_status r), (''answer'', r_answer r),
      (''sources'', json_dumps L (r_sources r)), (''worker_id'', r_worker_id r),
      (''completed_at'', r_completed_at r)]"

definition store_result ::
  "config \<Rightarrow> lib \<Rightarrow> env \<Rightarrow> json \<Rightarrow> job_result \<Rightarrow> state \<Rightarrow> exn option \<times> state" where
  "store_result c L e job_id r s =
     (let key = RESULT_PREFIX c @ fmt L job_id in
      case client_hset e At_result_hset key (result_mapping L r) s of
        (Some x, s1) \<Rightarrow> (Some x, s1)
      | (None, s1) \<Rightarrow>
          (case client_expire e At_result_expire key (RESULT_TTL c) s1 of
             (Some x, s2) \<Rightarrow> (Some x, s2)
           | (None, s2) \<Rightarrow> (None, emit (Print (Log_result_stored key)) s2)))"

definition error_mapping :: "config \<Rightarrow> env \<Rightarrow> string \<Rightarrow> (string \<times> string) list" where
  "error_mapping c e msg =
     [(''status'', ''error''), (''error'', msg), (''worker_id'', WORKER_ID c),
      (''completed_at'', utcnow_error e)]"

definition store_error ::
  "config \<Rightarrow> lib \<Rightarrow> env \<Rightarrow> json \<Rightarrow> string \<Rightarrow> state \<Rightarrow> exn option \<times> state" where
  "store_error c L e job_id msg s =
     (let key = RESULT_PREFIX c @ fmt L job_id in
      case client_hset e At_error_hset key (error_mapping c e msg) s of
        (Some x, s1) \<Rightarrow> (Some x, s1)
      | (None, s1) \<Rightarrow>
          (case client_expire e At_error_expire key (RESULT_TTL c) s1 of
             (Some x, s2) \<Rightarrow> (Some x, s2)
           | (None, s2) \<Rightarrow> (None, emit (Print (Log_error_stored key)) s2)))"

subsection \<open>worker_loop\<close>

text \<open>The handler of the inner \<open>try\<close>: \<open>except Exception as e\<close>.\<close>

definition job_except ::
  "config \<Rightarrow> lib \<Rightarrow> env \<Rightarrow> json \<Rightarrow> exn \<Rightarrow> state \<Rightarrow> exn option \<times> state" where
  "job_except c L e job_id x s =
     (let s1 = emit (Print (Log_job_failed (fmt L job_id) (str_exn x))) s in
      case store_error c L e job_id (str_exn x) s1 of
        (Some y, s2) \<Rightarrow> (Some y, s2)
      | (None, s2) \<Rightarrow> (None, record_job_error s2))"

text \<open>The body of the inner \<open>try\<close> with its handler.\<close>

definition job_try ::
  "config \<Rightarrow> lib \<Rightarrow> env \<Rightarrow> json \<Rightarrow> (string \<times> json) list \<Rightarrow> state \<Rightarrow> exn option \<times> state" where
  "job_try c L e job_id job_data s =
     (case process_job c L e job_data s of
        (Inl x, s1) \<Rightarrow> job_except c L e job_id x s1
      | (Inr r, s1) \<Rightarrow>
          (case store_result c L e job_id r s1 of
             (Some x, s2) \<Rightarrow> job_except c L e job_id x s2
           | (None, s2) \<Rightarrow> (None, record_job_success s2)))"

text \<open>The \<open>finally\<close> clause.\<close>

definition job_finally :: "lib \<Rightarrow> json \<Rightarrow> state \<Rightarrow> state" where
  "job_finally L job_id s =
     emit (Print (Log_job_completed (fmt L job_id))) (decrement_inflight (observe s))"

text \<open>
  The body of the outer \<open>try\<close>: what it raises, if anything, and the state it leaves.
  \<open>continue\<close> and falling off the end both return to the loop test.
\<close>

definition iteration_body :: "config \<Rightarrow> lib \<Rightarrow> env \<Rightarrow> state \<Rightarrow> exn option \<times> state" where
  "iteration_body c L e s =
     (case client_brpop c e (deliver e In_pop s) of
        (Inl x, s1) \<Rightarrow> (Some x, s1)
      | (Inr None, s1) \<Rightarrow> (None, s1)
      | (Inr (Some job_json), s1) \<Rightarrow>
          (case json_loads L job_json of
             None \<Rightarrow> (None, record_job_error (emit (Print Log_invalid_json) s1))
           | Some (JObj job_data) \<Rightarrow>
               (let job_id = dict_get job_data ''job_id'' (JStr ''unknown'');
                    s2 = deliver e In_job (increment_inflight s1);
                    (r, s3) = job_try c L e job_id job_data s2
                in (r, job_finally L job_id (deliver e In_accounting s3)))
           | Some v \<Rightarrow>
               (Some (AttributeError
                  (quoted (py_type_name v) @ '' object has no attribute '' @ quoted ''get'')), s1)))"

text \<open>One pass of the \<open>while\<close> loop: the body and the two handlers of the outer \<open>try\<close>.\<close>

definition iteration :: "config \<Rightarrow> lib \<Rightarrow> env \<Rightarrow> state \<Rightarrow> state" where
  "iteration c L e s =
     (case iteration_body c L e s of
        (None, s1) \<Rightarrow> s1
      | (Some x, s1) \<Rightarrow>
          if is_ConnectionError x
          then emit (Sleep 5) (emit (Print (Log_redis_connection_error (str_exn x))) s1)
          else emit (Sleep 1) (emit (Print (Log_unexpected_error (str_exn x))) s1))"

text \<open>
  The \<open>while not _shutdown\<close> loop, run against the behaviour of its surroundings for
  as many iterations as are given: it has either left the loop or is still in it.
\<close>

datatype run = Exited state | Running state

fun main_loop :: "config \<Rightarrow> lib \<Rightarrow> env list \<Rightarrow> state \<Rightarrow> run" where
  "main_loop c L [] s =
     (if shutdown s then Exited (emit (Print Log_shutdown_complete) s) else Running s)"
| "main_loop c L (e # es) s =
     (if shutdown s then Exited (emit (Print Log_shutdown_complete) s)
      else main_loop c L es (iteration c L e s))"

text \<open>
  \<open>worker_loop\<close>: the start-up (metrics server, engine, client) raises out of the
  function when it fails; otherwise the loop runs.
\<close>

definition worker_loop :: "config \<Rightarrow> lib \<Rightarrow> exn option \<Rightarrow> env list \<Rightarrow> state \<Rightarrow> exn + run" where
  "worker_loop c L startup es s =
     (case startup of Some x \<Rightarrow> Inl x | None \<Rightarrow> Inr (main_loop c L es s))"

section \<open>push_jobs.py\<close>

text \<open>
  What the producer cannot decide itself: the index \<open>random.choice\<close> picks in pass
  \<open>i\<close>, the eight hexadecimal digits of the fresh UUID, and the clock.
\<close>

record producer_env =
  random_index :: "nat \<Rightarrow> nat"
  uuid4_hex8 :: "nat \<Rightarrow> string"
  strftime_now :: "nat \<Rightarrow> string"

datatype producer_error = IndexError | ZeroDivisionError | UnboundLocalError

definition make_job :: "producer_env \<Rightarrow> string list \<Rightarrow> bool \<Rightarrow> nat \<Rightarrow> json" where
  "make_job P questions randomize i =
     (let question = (if randomize then questions ! (random_index P i mod length questions)
                      else questions ! (i mod length questions));
          job_id = ''job_'' @ uuid4_hex8 P i
      in JObj [(''job_id'', JStr job_id), (''question'', JStr question),
               (''submitted_at'', JStr (strftime_now P i))])"

text \<open>
  \<open>push_jobs\<close> on the list of the queue: with no question to choose from the first pass
  raises before it pushes, and with no pass at all the closing message reads a
  \<open>job_id\<close> that was never bound. The store is taken to accept every push.
\<close>

definition push_jobs ::
  "lib \<Rightarrow> producer_env \<Rightarrow> string list \<Rightarrow> int \<Rightarrow> bool \<Rightarrow> string list
     \<Rightarrow> producer_error option \<times> string list" where
  "push_jobs L P questions count randomize q =
     (if count \<le> 0 then (Some UnboundLocalError, q)
      else if questions = [] then (Some (if randomize then IndexError else ZeroDivisionError), q)
      else (None,
            fold (\<lambda>i. redis_lpush (json_dumps L (make_job P questions randomize i)))
              [0..<nat count] q))"

text \<open>The payloads \<open>push_jobs\<close> pushes, in the order of its passes.\<close>

definition pushed_payloads ::
  "lib \<Rightarrow> producer_env \<Rightarrow> string list \<Rightarrow> int \<Rightarrow> bool \<Rightarrow> string list" where
  "pushed_payloads L P questions count randomize =
     map (\<lambda>i. json_dumps L (make_job P questions randomize i)) [0..<nat count]"

text \<open>Popping until the queue answers nil: the payloads in the order they are delivered.\<close>

function drain :: "string list \<Rightarrow> string list" where
  "drain q = (case redis_brpop q of (None, q') \<Rightarrow> [] | (Some x, q') \<Rightarrow> x # drain q')"
  by pat_completeness auto
termination
  by (relation "measure length") (auto simp: redis_brpop_def split: if_splits)

declare drain.simps [simp del]

section \<open>Notions the properties are stated with\<close>


text \<open>A command that writes to a key other than the given one.\<close>

fun writes_elsewhere :: "string \<Rightarrow> event \<Rightarrow> bool" where
  "writes_elsewhere key (Cmd (HSET k m)) = (k \<noteq> key)"
| "writes_elsewhere key (Cmd (EXPIRE k n)) = (k \<noteq> key)"
| "writes_elsewhere key ev = False"

text \<open>A command that writes to the store at all.\<close>

fun is_write :: "event \<Rightarrow> bool" where
  "is_write (Cmd (HSET k m)) = True"
| "is_write (Cmd (EXPIRE k n)) = True"
| "is_write ev = False"

text \<open>\<open>HGET\<close>: the value of a field of the hash at a key, as a client polling reads it.\<close>

definition hget :: "state \<Rightarrow> string \<Rightarrow> string \<Rightarrow> string option" where
  "hget s key field = (case store s key of None \<Rightarrow> None | Some h \<Rightarrow> h field)"

text \<open>The state in which a popped payload has become the job in flight.\<close>

definition job_claimed :: "config \<Rightarrow> env \<Rightarrow> state \<Rightarrow> state" where
  "job_claimed c e s =
     deliver e In_job (increment_inflight
       ((emit (Cmd (BRPOP (QUEUE_NAME c) (BRPOP_TIMEOUT c))) (deliver e In_pop s))
          \<lparr>queue := butlast (queue s)\<rparr>))"

text \<open>Two states that differ at most in the shutdown flag and in the trace.\<close>

definition same_effects :: "state \<Rightarrow> state \<Rightarrow> bool" where
  "same_effects s t =
     (queue s = queue t \<and> store s = store t \<and> ttl s = ttl t \<and>
      agent_inflight s = agent_inflight t \<and>
      agent_jobs_processed s = agent_jobs_processed t \<and>
      agent_job_duration s = agent_job_duration t)"

section \<open>Concrete inputs\<close>

definition job_abc123_payload :: string where
  \<open>job_abc123_payload =
     ''{"job_id": "job_abc123", "question": "What is the refund policy?", "submitted_at": "2024-01-01T00:00:00Z"}''\<close>

definition job_abc123 :: json where
  "job_abc123 =
     JObj [(''job_id'', JStr ''job_abc123''), (''question'', JStr ''What is the refund policy?''),
           (''submitted_at'', JStr ''2024-01-01T00:00:00Z'')]"

definition empty_question_payload :: string where
  \<open>empty_question_payload = ''{"job_id": "job_empty", "question": ""}''\<close>

definition empty_question_job :: json where
  "empty_question_job = JObj [(''job_id'', JStr ''job_empty''), (''question'', JStr [])]"

definition no_job_id_payload :: string where
  \<open>no_job_id_payload = ''{"question": "What is the refund policy?"}''\<close>

definition no_job_id_job :: json where
  "no_job_id_job = JObj [(''question'', JStr ''What is the refund policy?'')]"

text \<open>
  A decoder that knows the three payloads above and rejects every other text, an encoder
  that knows the empty array, and a pipeline stub that answers \<open>30 days\<close> with no sources.
\<close>

definition stub_lib :: lib where
  "stub_lib =
     \<lparr>json_loads = map_of [(job_abc123_payload, job_abc123),
                           (empty_question_payload, empty_question_job),
                           (no_job_id_payload, no_job_id_job)],
      json_dumps = (\<lambda>v. if v = JArr [] then ''[]'' else ''[...]''),
      py_str = (\<lambda>v. ''?'')\<rparr>"

definition stub_env :: env where
  "stub_env =
     \<lparr>redis_fault = (\<lambda>at. None),
      rag_answer = (\<lambda>q. Inr (''30 days'', JArr [])),
      utcnow_completed = ''2024-01-01T00:00:05'',
      utcnow_error = ''2024-01-01T00:00:06'',
      signal_at = None\<rparr>"

definition idle_state :: "string list \<Rightarrow> state" where
  "idle_state q =
     \<lparr>queue = q, store = Map.empty, ttl = Map.empty, agent_inflight = 0,
      agent_jobs_processed = (\<lambda>l. 0), agent_job_duration = 0, shutdown = False, trace = []\<rparr>"

text \<open>
  A producer whose three jobs get fixed identifiers, and an encoder that renders a job
  as its identifier, so that the payloads can be told apart.
\<close>

definition sample_producer :: producer_env where
  "sample_producer =
     \<lparr>random_index = (\<lambda>i. 0),
      uuid4_hex8 = (\<lambda>i. if i = 0 then ''0a1b2c3d'' else if i = 1 then ''4e5f6a7b''
                         else ''8c9d0e1f''),
      strftime_now = (\<lambda>i. ''2024-01-01T00:00:00Z'')\<rparr>"

fun job_label :: "json \<Rightarrow> string" where
  "job_label (JObj kvs) = (case map_of kvs ''job_id'' of Some (JStr i) \<Rightarrow> i | _ \<Rightarrow> ''?'')"
| "job_label v = ''?''"

definition producer_lib :: lib where
  "producer_lib = stub_lib\<lparr>json_dumps := job_label\<rparr>"

text \<open>The surroundings of a later pass: the pipeline answers \<open>14 days\<close>, a minute on.\<close>

definition later_env :: env where
  "later_env =
     stub_env\<lparr>rag_answer := (\<lambda>q. Inr (''14 days'', JArr [])),
              utcnow_completed := ''2024-01-01T00:01:05''\<rparr>"

text \<open>A pipeline whose backend fails, and a store that refuses every write.\<close>

definition failing_env :: env where
  "failing_env = stub_env\<lparr>rag_answer := (\<lambda>q. Inl (OtherError ''Ollama call failed''))\<rparr>"

definition offline_env :: env where
  "offline_env =
     stub_env\<lparr>redis_fault :=
       (\<lambda>at. if at = At_brpop then None else Some (ConnectionError ''Connection refused''))\<rparr>"

text \<open>
  A pass during which \<open>SIGTERM\<close> arrives while the job is in flight, and a pass during
  which the store cannot be reached at all.
\<close>

definition signalled_env :: env where
  "signalled_env = stub_env\<lparr>signal_at := Some (In_job, 15)\<rparr>"

definition unreachable_env :: env where
  "unreachable_env =
     stub_env\<lparr>redis_fault := (\<lambda>at. Some (ConnectionError ''Connection refused''))\<rparr>"

text \<open>A store that drops the connection on the \<open>HSET\<close> of a result, and on nothing else.\<close>

definition rejecting_env :: env where
  "rejecting_env =
     stub_env\<lparr>redis_fault :=
       (\<lambda>at. if at = At_result_hset then Some (ConnectionError ''Connection reset by peer'')
             else None)\<rparr>"

definition sample_result :: job_result where
  "sample_result =
     \<lparr>r_job_id = JStr ''job_abc123'', r_status = ''completed'',
      r_question = JStr ''What is the refund policy?'', r_answer = ''30 days'',
      r_sources = JArr [], r_worker_id = ''worker-local'',
      r_completed_at = ''2024-01-01T00:00:05''\<rparr>"

section \<open>How the operations act on the parts of the state\<close>

lemmas prim_defs = emit_def redis_hset_def redis_expire_def increment_inflight_def
  decrement_inflight_def labels_inc_def record_job_success_def record_job_error_def observe_def
  signal_handler_def

subsection \<open>Signal delivery\<close>

lemma deliver_fields [simp]:
  "queue (deliver e p s) = queue s"
  "store (deliver e p s) = store s"
  "ttl (deliver e p s) = ttl s"
  "agent_inflight (deliver e p s) = agent_inflight s"
  "agent_jobs_processed (deliver e p s) = agent_jobs_processed s"
  "agent_job_duration (deliver e p s) = agent_job_duration s"
  by (simp_all add: deliver_def prim_defs split: option.splits prod.splits)

lemma deliver_filter:
  "(\<And>l. \<not> P (Print l)) \<Longrightarrow> filter P (trace (deliver e p s)) = filter P (trace s)"
  by (simp add: deliver_def prim_defs split: option.splits prod.splits)

lemma deliver_no_signal [simp]: "signal_at e = None \<Longrightarrow> deliver e p s = s"
  by (simp add: deliver_def)

lemma deliver_shutdown:
  "shutdown (deliver e p s) = (shutdown s \<or> (\<exists>n. signal_at e = Some (p, n)))"
  by (auto simp add: deliver_def prim_defs split: option.splits prod.splits)

subsection \<open>Frames: the gauge, the queue and the flag through a job\<close>

lemma client_hset_frame [simp]:
  "agent_inflight (snd (client_hset e at key m s)) = agent_inflight s"
  "queue (snd (client_hset e at key m s)) = queue s"
  "shutdown (snd (client_hset e at key m s)) = shutdown s"
  "agent_job_duration (snd (client_hset e at key m s)) = agent_job_duration s"
  "agent_jobs_processed (snd (client_hset e at key m s)) = agent_jobs_processed s"
  "trace (snd (client_hset e at key m s)) = trace s @ [Cmd (HSET key m)]"
  by (simp_all add: client_hset_def prim_defs Let_def split: option.splits)

lemma client_expire_frame [simp]:
  "agent_inflight (snd (client_expire e at key n s)) = agent_inflight s"
  "queue (snd (client_expire e at key n s)) = queue s"
  "shutdown (snd (client_expire e at key n s)) = shutdown s"
  "agent_job_duration (snd (client_expire e at key n s)) = agent_job_duration s"
  "agent_jobs_processed (snd (client_expire e at key n s)) = agent_jobs_processed s"
  "trace (snd (client_expire e at key n s)) = trace s @ [Cmd (EXPIRE key n)]"
  by (simp_all add: client_expire_def prim_defs Let_def split: option.splits)

lemma store_result_frame [simp]:
  "agent_inflight (snd (store_result c L e j r s)) = agent_inflight s"
  "queue (snd (store_result c L e j r s)) = queue s"
  "shutdown (snd (store_result c L e j r s)) = shutdown s"
  "agent_job_duration (snd (store_result c L e j r s)) = agent_job_duration s"
  "agent_jobs_processed (snd (store_result c L e j r s)) = agent_jobs_processed s"
  by (simp_all add: store_result_def Let_def split_beta emit_def split: option.splits)

lemma store_error_frame [simp]:
  "agent_inflight (snd (store_error c L e j msg s)) = agent_inflight s"
  "queue (snd (store_error c L e j msg s)) = queue s"
  "shutdown (snd (store_error c L e j msg s)) = shutdown s"
  "agent_job_duration (snd (store_error c L e j msg s)) = agent_job_duration s"
  "agent_jobs_processed (snd (store_error c L e j msg s)) = agent_jobs_processed s"
  by (simp_all add: store_error_def Let_def split_beta emit_def split: option.splits)

lemma process_job_frame [simp]:
  "agent_inflight (snd (process_job c L e d s)) = agent_inflight s"
  "queue (snd (process_job c L e d s)) = queue s"
  "shutdown (snd (process_job c L e d s)) = shutdown s"
  "agent_job_duration (snd (process_job c L e d s)) = agent_job_duration s"
  "agent_jobs_processed (snd (process_job c L e d s)) = agent_jobs_processed s"
  by (simp_all add: process_job_def Let_def split_beta emit_def split: option.splits sum.splits)

lemma job_except_frame [simp]:
  "agent_inflight (snd (job_except c L e j x s)) = agent_inflight s"
  "queue (snd (job_except c L e j x s)) = queue s"
  "shutdown (snd (job_except c L e j x s)) = shutdown s"
  "agent_job_duration (snd (job_except c L e j x s)) = agent_job_duration s"
  by (simp_all add: job_except_def Let_def split_beta prim_defs split: option.splits)

lemma job_try_frame [simp]:
  "agent_inflight (snd (job_try c L e j d s)) = agent_inflight s"
  "queue (snd (job_try c L e j d s)) = queue s"
  "shutdown (snd (job_try c L e j d s)) = shutdown s"
  "agent_job_duration (snd (job_try c L e j d s)) = agent_job_duration s"
  by (simp_all add: job_try_def Let_def split_beta prim_defs split: option.splits sum.splits)

subsection \<open>Frames: events of a kind a job does not emit\<close>

lemma store_result_filter:
  assumes "\<And>m. \<not> P (Cmd (HSET (RESULT_PREFIX c @ fmt L j) m))"
    and "\<And>n. \<not> P (Cmd (EXPIRE (RESULT_PREFIX c @ fmt L j) n))"
    and "\<And>l. \<not> P (Print l)"
  shows "filter P (trace (snd (store_result c L e j r s))) = filter P (trace s)"
  using assms by (simp add: store_result_def Let_def split_beta emit_def split: option.splits)

lemma store_error_filter:
  assumes "\<And>m. \<not> P (Cmd (HSET (RESULT_PREFIX c @ fmt L j) m))"
    and "\<And>n. \<not> P (Cmd (EXPIRE (RESULT_PREFIX c @ fmt L j) n))"
    and "\<And>l. \<not> P (Print l)"
  shows "filter P (trace (snd (store_error c L e j msg s))) = filter P (trace s)"
  using assms by (simp add: store_error_def Let_def split_beta emit_def split: option.splits)

lemma process_job_filter:
  assumes "\<And>l. \<not> P (Print l)"
  shows "filter P (trace (snd (process_job c L e d s))) = filter P (trace s)"
  using assms
  by (simp add: process_job_def Let_def split_beta emit_def split: option.splits sum.splits)

lemma job_except_filter:
  assumes "\<And>m. \<not> P (Cmd (HSET (RESULT_PREFIX c @ fmt L j) m))"
    and "\<And>n. \<not> P (Cmd (EXPIRE (RESULT_PREFIX c @ fmt L j) n))"
    and "\<And>l. \<not> P (Print l)" and "\<And>l. \<not> P (Processed_inc l)"
  shows "filter P (trace (snd (job_except c L e j x s))) = filter P (trace s)"
  using assms
  by (simp add: job_except_def Let_def split_beta prim_defs store_error_filter
      split: option.splits)

lemma job_try_filter:
  assumes "\<And>m. \<not> P (Cmd (HSET (RESULT_PREFIX c @ fmt L j) m))"
    and "\<And>n. \<not> P (Cmd (EXPIRE (RESULT_PREFIX c @ fmt L j) n))"
    and "\<And>l. \<not> P (Print l)" and "\<And>l. \<not> P (Processed_inc l)"
  shows "filter P (trace (snd (job_try c L e j d s))) = filter P (trace s)"
  using assms
  by (simp add: job_try_def Let_def split_beta prim_defs store_result_filter
      job_except_filter process_job_filter split: option.splits sum.splits)

subsection \<open>Closed forms\<close>

lemma store_result_accepted:
  assumes "redis_fault e At_result_hset = None" "redis_fault e At_result_expire = None"
  shows "store_result c L e j r s =
    (None, emit (Print (Log_result_stored (RESULT_PREFIX c @ fmt L j)))
      (redis_expire (RESULT_PREFIX c @ fmt L j) (RESULT_TTL c)
        (emit (Cmd (EXPIRE (RESULT_PREFIX c @ fmt L j) (RESULT_TTL c)))
          (redis_hset (RESULT_PREFIX c @ fmt L j) (result_mapping L r)
            (emit (Cmd (HSET (RESULT_PREFIX c @ fmt L j) (result_mapping L r))) s)))))"
  using assms by (simp add: store_result_def client_hset_def client_expire_def Let_def)

lemma store_error_accepted:
  assumes "redis_fault e At_error_hset = None" "redis_fault e At_error_expire = None"
  shows "store_error c L e j msg s =
    (None, emit (Print (Log_error_stored (RESULT_PREFIX c @ fmt L j)))
      (redis_expire (RESULT_PREFIX c @ fmt L j) (RESULT_TTL c)
        (emit (Cmd (EXPIRE (RESULT_PREFIX c @ fmt L j) (RESULT_TTL c)))
          (redis_hset (RESULT_PREFIX c @ fmt L j) (error_mapping c e msg)
            (emit (Cmd (HSET (RESULT_PREFIX c @ fmt L j) (error_mapping c e msg))) s)))))"
  using assms by (simp add: store_error_def client_hset_def client_expire_def Let_def)

lemma process_job_answered:
  assumes "truthy (dict_get d ''question'' (JStr []))"
    and "slice50 (dict_get d ''question'' (JStr [])) = Inr q50"
    and "rag_answer e (dict_get d ''question'' (JStr [])) = Inr (a, srcs)"
  shows "process_job c L e d s =
    (Inr \<lparr>r_job_id = dict_get d ''job_id'' (JStr ''unknown''), r_status = ''completed'',
          r_question = dict_get d ''question'' (JStr []), r_answer = a, r_sources = srcs,
          r_worker_id = WORKER_ID c, r_completed_at = utcnow_completed e\<rparr>,
     emit (Print (Log_processing (fmt L (dict_get d ''job_id'' (JStr ''unknown''))) q50)) s)"
  using assms by (simp add: process_job_def Let_def)

lemma process_job_failed:
  assumes "truthy (dict_get d ''question'' (JStr []))"
    and "slice50 (dict_get d ''question'' (JStr [])) = Inr q50"
    and "rag_answer e (dict_get d ''question'' (JStr [])) = Inl x"
  shows "process_job c L e d s =
    (Inl x, emit (Print (Log_processing (fmt L (dict_get d ''job_id'' (JStr ''unknown''))) q50)) s)"
  using assms by (simp add: process_job_def Let_def)

lemma process_job_no_question:
  assumes "\<not> truthy (dict_get d ''question'' (JStr []))"
  shows "process_job c L e d s = (Inl (ValueError ''Job missing 'question' field''), s)"
  using assms by (simp add: process_job_def Let_def)

lemma job_except_stored:
  assumes "redis_fault e At_error_hset = None" "redis_fault e At_error_expire = None"
  shows "job_except c L e j x s =
    (None, record_job_error (snd (store_error c L e j (str_exn x)
             (emit (Print (Log_job_failed (fmt L j) (str_exn x))) s))))"
  using assms by (simp add: job_except_def Let_def store_error_accepted)

lemma job_try_completed:
  assumes "truthy (dict_get d ''question'' (JStr []))"
    and "slice50 (dict_get d ''question'' (JStr [])) = Inr q50"
    and "rag_answer e (dict_get d ''question'' (JStr [])) = Inr (a, srcs)"
    and "redis_fault e At_result_hset = None" "redis_fault e At_result_expire = None"
  shows "job_try c L e j d s =
    (None, record_job_success (snd (store_result c L e j
       \<lparr>r_job_id = dict_get d ''job_id'' (JStr ''unknown''), r_status = ''completed'',
        r_question = dict_get d ''question'' (JStr []), r_answer = a, r_sources = srcs,
        r_worker_id = WORKER_ID c, r_completed_at = utcnow_completed e\<rparr>
       (emit (Print (Log_processing (fmt L (dict_get d ''job_id'' (JStr ''unknown''))) q50)) s))))"
  using assms by (simp add: job_try_def process_job_answered store_result_accepted)

lemma job_try_no_question:
  assumes "\<not> truthy (dict_get d ''question'' (JStr []))"
  shows "job_try c L e j d s = job_except c L e j (ValueError ''Job missing 'question' field'') s"
  using assms by (simp add: job_try_def process_job_no_question)

lemma job_try_pipeline_failed:
  assumes "truthy (dict_get d ''question'' (JStr []))"
    and "slice50 (dict_get d ''question'' (JStr [])) = Inr q50"
    and "rag_answer e (dict_get d ''question'' (JStr [])) = Inl x"
  shows "job_try c L e j d s = job_except c L e j x
      (emit (Print (Log_processing (fmt L (dict_get d ''job_id'' (JStr ''unknown''))) q50)) s)"
  using assms by (simp add: job_try_def process_job_failed)

lemma iteration_body_job:
  assumes "queue s \<noteq> []" "redis_fault e At_brpop = None"
      "json_loads L (last (queue s)) = Some (JObj d)"
  shows "iteration_body c L e s =
    (fst (job_try c L e (dict_get d ''job_id'' (JStr ''unknown'')) d
            (deliver e In_job (increment_inflight
               ((emit (Cmd (BRPOP (QUEUE_NAME c) (BRPOP_TIMEOUT c))) (deliver e In_pop s))
                  \<lparr>queue := butlast (queue s)\<rparr>)))),
     job_finally L (dict_get d ''job_id'' (JStr ''unknown''))
       (deliver e In_accounting
         (snd (job_try c L e (dict_get d ''job_id'' (JStr ''unknown'')) d
            (deliver e In_job (increment_inflight
               ((emit (Cmd (BRPOP (QUEUE_NAME c) (BRPOP_TIMEOUT c))) (deliver e In_pop s))
                  \<lparr>queue := butlast (queue s)\<rparr>)))))))"
  using assms
  by (simp add: iteration_body_def client_brpop_def redis_brpop_def Let_def split_beta emit_def)


lemma iteration_body_empty:
  assumes "queue s = []" "redis_fault e At_brpop = None"
  shows "iteration_body c L e s =
    (None, emit (Cmd (BRPOP (QUEUE_NAME c) (BRPOP_TIMEOUT c))) (deliver e In_pop s))"
  using assms
  by (simp add: iteration_body_def client_brpop_def redis_brpop_def Let_def split_beta emit_def)

subsection \<open>A claimed job, and the accounting after it\<close>

lemma job_claimed_fields [simp]:
  "queue (job_claimed c e s) = butlast (queue s)"
  "store (job_claimed c e s) = store s"
  "ttl (job_claimed c e s) = ttl s"
  "agent_inflight (job_claimed c e s) = agent_inflight s + 1"
  "agent_jobs_processed (job_claimed c e s) = agent_jobs_processed s"
  "agent_job_duration (job_claimed c e s) = agent_job_duration s"
  by (simp_all add: job_claimed_def prim_defs)

lemma job_claimed_filter:
  assumes "\<And>l. \<not> P (Print l)" "\<And>q n. \<not> P (Cmd (BRPOP q n))" "\<not> P Inflight_inc"
  shows "filter P (trace (job_claimed c e s)) = filter P (trace s)"
  using assms by (simp add: job_claimed_def prim_defs deliver_filter)

lemma job_claimed_shutdown:
  "shutdown (job_claimed c e s) =
     (shutdown s \<or> (\<exists>n. signal_at e = Some (In_pop, n)) \<or> (\<exists>n. signal_at e = Some (In_job, n)))"
  by (simp add: job_claimed_def prim_defs deliver_shutdown)

lemma job_finally_fields [simp]:
  "queue (job_finally L j s) = queue s"
  "store (job_finally L j s) = store s"
  "ttl (job_finally L j s) = ttl s"
  "agent_inflight (job_finally L j s) = agent_inflight s - 1"
  "agent_jobs_processed (job_finally L j s) = agent_jobs_processed s"
  "agent_job_duration (job_finally L j s) = Suc (agent_job_duration s)"
  "shutdown (job_finally L j s) = shutdown s"
  by (simp_all add: job_finally_def prim_defs)

lemma job_finally_filter:
  assumes "\<And>l. \<not> P (Print l)" "\<not> P Duration_observe" "\<not> P Inflight_dec"
  shows "filter P (trace (job_finally L j s)) = filter P (trace s)"
  using assms by (simp add: job_finally_def prim_defs)

lemma iteration_body_claimed:
  assumes "queue s \<noteq> []" "redis_fault e At_brpop = None"
      "json_loads L (last (queue s)) = Some (JObj d)"
  shows "iteration_body c L e s =
    (fst (job_try c L e (dict_get d ''job_id'' (JStr ''unknown'')) d (job_claimed c e s)),
     job_finally L (dict_get d ''job_id'' (JStr ''unknown''))
       (deliver e In_accounting
         (snd (job_try c L e (dict_get d ''job_id'' (JStr ''unknown'')) d (job_claimed c e s)))))"
  using assms by (simp add: iteration_body_job job_claimed_def)

lemma hget_cong: "store s = store t \<Longrightarrow> hget s = hget t"
  by (simp add: hget_def fun_eq_iff)

lemma hget_simps [simp]:
  "hget (emit ev s) = hget s"
  "hget (deliver e p s) = hget s"
  "hget (job_finally L j s) = hget s"
  "hget (job_claimed c e s) = hget s"
  "hget (labels_inc l s) = hget s"
  by (rule hget_cong, simp add: prim_defs)+

subsection \<open>What an accepted write leaves in the store\<close>

lemma client_hset_store:
  "redis_fault e at = None \<Longrightarrow>
   store (snd (client_hset e at key m s)) =
     (store s)(key \<mapsto> (case store s key of None \<Rightarrow> Map.empty | Some h \<Rightarrow> h) ++ map_of m)"
  "redis_fault e at = None \<Longrightarrow> ttl (snd (client_hset e at key m s)) = ttl s"
  "redis_fault e at = None \<Longrightarrow> fst (client_hset e at key m s) = None"
  "redis_fault e at = Some x \<Longrightarrow> fst (client_hset e at key m s) = Some x"
  "redis_fault e at = Some x \<Longrightarrow> store (snd (client_hset e at key m s)) = store s"
  "redis_fault e at = Some x \<Longrightarrow> ttl (snd (client_hset e at key m s)) = ttl s"
  "agent_jobs_processed (snd (client_hset e at key m s)) = agent_jobs_processed s"
  "agent_job_duration (snd (client_hset e at key m s)) = agent_job_duration s"
  by (simp_all add: client_hset_def prim_defs Let_def split: option.splits)

lemma store_result_store:
  assumes "redis_fault e At_result_hset = None" "redis_fault e At_result_expire = None"
    and "0 < RESULT_TTL c"
  shows "store (snd (store_result c L e j r s)) =
     (store s)(RESULT_PREFIX c @ fmt L j \<mapsto>
        (case store s (RESULT_PREFIX c @ fmt L j) of None \<Rightarrow> Map.empty | Some h \<Rightarrow> h)
          ++ map_of (result_mapping L r))"
    and "ttl (snd (store_result c L e j r s)) = (ttl s)(RESULT_PREFIX c @ fmt L j \<mapsto> RESULT_TTL c)"
    and "fst (store_result c L e j r s) = None"
    and "trace (snd (store_result c L e j r s)) = trace s @
       [Cmd (HSET (RESULT_PREFIX c @ fmt L j) (result_mapping L r)),
        Cmd (EXPIRE (RESULT_PREFIX c @ fmt L j) (RESULT_TTL c)),
        Print (Log_result_stored (RESULT_PREFIX c @ fmt L j))]"
    and "agent_jobs_processed (snd (store_result c L e j r s)) = agent_jobs_processed s"
  using assms by (simp_all add: store_result_accepted prim_defs)

lemma store_error_store:
  assumes "redis_fault e At_error_hset = None" "redis_fault e At_error_expire = None"
    and "0 < RESULT_TTL c"
  shows "store (snd (store_error c L e j msg s)) =
     (store s)(RESULT_PREFIX c @ fmt L j \<mapsto>
        (case store s (RESULT_PREFIX c @ fmt L j) of None \<Rightarrow> Map.empty | Some h \<Rightarrow> h)
          ++ map_of (error_mapping c e msg))"
    and "ttl (snd (store_error c L e j msg s)) = (ttl s)(RESULT_PREFIX c @ fmt L j \<mapsto> RESULT_TTL c)"
    and "fst (store_error c L e j msg s) = None"
    and "trace (snd (store_error c L e j msg s)) = trace s @
       [Cmd (HSET (RESULT_PREFIX c @ fmt L j) (error_mapping c e msg)),
        Cmd (EXPIRE (RESULT_PREFIX c @ fmt L j) (RESULT_TTL c)),
        Print (Log_error_stored (RESULT_PREFIX c @ fmt L j))]"
    and "agent_jobs_processed (snd (store_error c L e j msg s)) = agent_jobs_processed s"
  using assms by (simp_all add: store_error_accepted prim_defs)

lemma hget_store_result:
  assumes "redis_fault e At_result_hset = None" "redis_fault e At_result_expire = None"
    and "0 < RESULT_TTL c"
  shows "hget (snd (store_result c L e j r s)) k f =
     (if k = RESULT_PREFIX c @ fmt L j
      then (case map_of (result_mapping L r) f of Some v \<Rightarrow> Some v | None \<Rightarrow> hget s k f)
      else hget s k f)"
  by (simp add: hget_def store_result_store [OF assms] map_add_def split: option.splits)

lemma hget_store_error:
  assumes "redis_fault e At_error_hset = None" "redis_fault e At_error_expire = None"
    and "0 < RESULT_TTL c"
  shows "hget (snd (store_error c L e j msg s)) k f =
     (if k = RESULT_PREFIX c @ fmt L j
      then (case map_of (error_mapping c e msg) f of Some v \<Rightarrow> Some v | None \<Rightarrow> hget s k f)
      else hget s k f)"
  by (simp add: hget_def store_error_store [OF assms] map_add_def split: option.splits)

subsection \<open>The two outcomes of a job the store accepts\<close>

lemma job_except_effects:
  assumes "redis_fault e At_error_hset = None" "redis_fault e At_error_expire = None"
    and "0 < RESULT_TTL c"
  shows "hget (snd (job_except c L e j x s)) k f =
     (if k = RESULT_PREFIX c @ fmt L j
      then (case map_of (error_mapping c e (str_exn x)) f of
              Some v \<Rightarrow> Some v | None \<Rightarrow> hget s k f)
      else hget s k f)"
    and "ttl (snd (job_except c L e j x s)) = (ttl s)(RESULT_PREFIX c @ fmt L j \<mapsto> RESULT_TTL c)"
    and "agent_jobs_processed (snd (job_except c L e j x s)) =
           (agent_jobs_processed s)(''err'' := Suc (agent_jobs_processed s ''err''))"
    and "filter is_write (trace (snd (job_except c L e j x s))) = filter is_write (trace s) @
       [Cmd (HSET (RESULT_PREFIX c @ fmt L j) (error_mapping c e (str_exn x))),
        Cmd (EXPIRE (RESULT_PREFIX c @ fmt L j) (RESULT_TTL c))]"
    and "fst (job_except c L e j x s) = None"
proof -
  note je = job_except_stored [OF assms(1,2)]
  show "hget (snd (job_except c L e j x s)) k f =
     (if k = RESULT_PREFIX c @ fmt L j
      then (case map_of (error_mapping c e (str_exn x)) f of
              Some v \<Rightarrow> Some v | None \<Rightarrow> hget s k f)
      else hget s k f)"
    by (simp add: je record_job_error_def hget_store_error [OF assms] split: option.splits)
  show "ttl (snd (job_except c L e j x s)) = (ttl s)(RESULT_PREFIX c @ fmt L j \<mapsto> RESULT_TTL c)"
    by (simp add: je record_job_error_def labels_inc_def emit_def store_error_store [OF assms])
  show "agent_jobs_processed (snd (job_except c L e j x s)) =
           (agent_jobs_processed s)(''err'' := Suc (agent_jobs_processed s ''err''))"
    by (simp add: je record_job_error_def labels_inc_def emit_def store_error_store [OF assms])
  show "filter is_write (trace (snd (job_except c L e j x s))) = filter is_write (trace s) @
       [Cmd (HSET (RESULT_PREFIX c @ fmt L j) (error_mapping c e (str_exn x))),
        Cmd (EXPIRE (RESULT_PREFIX c @ fmt L j) (RESULT_TTL c))]"
    by (simp add: je record_job_error_def labels_inc_def emit_def store_error_store [OF assms])
  show "fst (job_except c L e j x s) = None"
    by (simp add: je)
qed

lemma job_try_completed_effects:
  assumes "truthy (dict_get d ''question'' (JStr []))"
    and "slice50 (dict_get d ''question'' (JStr [])) = Inr q50"
    and "rag_answer e (dict_get d ''question'' (JStr [])) = Inr (a, srcs)"
    and "redis_fault e At_result_hset = None" "redis_fault e At_result_expire = None"
    and "0 < RESULT_TTL c"
    and "m = [(''status'', ''completed''), (''answer'', a), (''sources'', json_dumps L srcs),
              (''worker_id'', WORKER_ID c), (''completed_at'', utcnow_completed e)]"
  shows "hget (snd (job_try c L e j d s)) k f =
     (if k = RESULT_PREFIX c @ fmt L j
      then (case map_of m f of Some v \<Rightarrow> Some v | None \<Rightarrow> hget s k f)
      else hget s k f)"
    and "ttl (snd (job_try c L e j d s)) = (ttl s)(RESULT_PREFIX c @ fmt L j \<mapsto> RESULT_TTL c)"
    and "agent_jobs_processed (snd (job_try c L e j d s)) =
           (agent_jobs_processed s)(''ok'' := Suc (agent_jobs_processed s ''ok''))"
    and "filter is_write (trace (snd (job_try c L e j d s))) = filter is_write (trace s) @
       [Cmd (HSET (RESULT_PREFIX c @ fmt L j) m),
        Cmd (EXPIRE (RESULT_PREFIX c @ fmt L j) (RESULT_TTL c))]"
    and "fst (job_try c L e j d s) = None"
proof -
  note jt = job_try_completed [OF assms(1-5)]
  note acc = assms(4-6)
  show "hget (snd (job_try c L e j d s)) k f =
     (if k = RESULT_PREFIX c @ fmt L j
      then (case map_of m f of Some v \<Rightarrow> Some v | None \<Rightarrow> hget s k f)
      else hget s k f)"
    by (simp add: jt record_job_success_def hget_store_result [OF acc] result_mapping_def assms(7)
        split: option.splits)
  show "ttl (snd (job_try c L e j d s)) = (ttl s)(RESULT_PREFIX c @ fmt L j \<mapsto> RESULT_TTL c)"
    by (simp add: jt record_job_success_def labels_inc_def emit_def store_result_store [OF acc])
  show "agent_jobs_processed (snd (job_try c L e j d s)) =
           (agent_jobs_processed s)(''ok'' := Suc (agent_jobs_processed s ''ok''))"
    by (simp add: jt record_job_success_def labels_inc_def emit_def store_result_store [OF acc])
  show "filter is_write (trace (snd (job_try c L e j d s))) = filter is_write (trace s) @
       [Cmd (HSET (RESULT_PREFIX c @ fmt L j) m),
        Cmd (EXPIRE (RESULT_PREFIX c @ fmt L j) (RESULT_TTL c))]"
    by (simp add: jt record_job_success_def labels_inc_def emit_def store_result_store [OF acc]
        result_mapping_def assms(7))
  show "fst (job_try c L e j d s) = None"
    by (simp add: jt)
qed

subsection \<open>The loop boundary\<close>

lemma iteration_fields:
  "agent_inflight (iteration c L e s) = agent_inflight (snd (iteration_body c L e s))"
  "queue (iteration c L e s) = queue (snd (iteration_body c L e s))"
  "store (iteration c L e s) = store (snd (iteration_body c L e s))"
  "ttl (iteration c L e s) = ttl (snd (iteration_body c L e s))"
  "agent_jobs_processed (iteration c L e s) = agent_jobs_processed (snd (iteration_body c L e s))"
  "agent_job_duration (iteration c L e s) = agent_job_duration (snd (iteration_body c L e s))"
  "shutdown (iteration c L e s) = shutdown (snd (iteration_body c L e s))"
  by (simp_all add: iteration_def split_beta emit_def split: option.splits)

lemma iteration_hget: "hget (iteration c L e s) = hget (snd (iteration_body c L e s))"
  by (simp add: hget_def iteration_fields fun_eq_iff)

lemma iteration_filter:
  assumes "\<And>l. \<not> P (Print l)" "\<And>n. \<not> P (Sleep n)"
  shows "filter P (trace (iteration c L e s)) = filter P (trace (snd (iteration_body c L e s)))"
  using assms by (simp add: iteration_def split_beta emit_def split: option.splits)

lemma iteration_of_job:
  assumes "queue s \<noteq> []" "redis_fault e At_brpop = None"
      "json_loads L (last (queue s)) = Some (JObj d)"
      and "j = dict_get d ''job_id'' (JStr ''unknown'')"
  shows "hget (iteration c L e s) = hget (snd (job_try c L e j d (job_claimed c e s)))"
    and "ttl (iteration c L e s) = ttl (snd (job_try c L e j d (job_claimed c e s)))"
    and "agent_jobs_processed (iteration c L e s) =
           agent_jobs_processed (snd (job_try c L e j d (job_claimed c e s)))"
    and "queue (iteration c L e s) = butlast (queue s)"
    and "agent_job_duration (iteration c L e s) = Suc (agent_job_duration s)"
    and "filter is_write (trace (iteration c L e s)) =
           filter is_write (trace (snd (job_try c L e j d (job_claimed c e s))))"
    and "signal_at e = None \<Longrightarrow> shutdown (iteration c L e s) = shutdown s"
    and "signal_at e \<noteq> None \<Longrightarrow> shutdown (iteration c L e s)"
proof -
  note ib = iteration_body_claimed [OF assms(1-3), of c, folded assms(4)]
  show "hget (iteration c L e s) = hget (snd (job_try c L e j d (job_claimed c e s)))"
    by (simp add: iteration_hget ib)
  show "ttl (iteration c L e s) = ttl (snd (job_try c L e j d (job_claimed c e s)))"
    by (simp add: iteration_fields ib)
  show "agent_jobs_processed (iteration c L e s) =
           agent_jobs_processed (snd (job_try c L e j d (job_claimed c e s)))"
    by (simp add: iteration_fields ib)
  show "queue (iteration c L e s) = butlast (queue s)"
    by (simp add: iteration_fields ib)
  show "agent_job_duration (iteration c L e s) = Suc (agent_job_duration s)"
    by (simp add: iteration_fields ib)
  show "filter is_write (trace (iteration c L e s)) =
           filter is_write (trace (snd (job_try c L e j d (job_claimed c e s))))"
    by (simp add: iteration_filter ib job_finally_filter deliver_filter)
  show "signal_at e = None \<Longrightarrow> shutdown (iteration c L e s) = shutdown s"
    by (simp add: iteration_fields ib job_claimed_shutdown)
  show "signal_at e \<noteq> None \<Longrightarrow> shutdown (iteration c L e s)"
  proof -
    assume "signal_at e \<noteq> None"
    then obtain p n where pn: "signal_at e = Some (p, n)" by (cases "signal_at e") auto
    show ?thesis
      by (cases p) (simp_all add: iteration_fields ib job_claimed_shutdown deliver_shutdown pn)
  qed
qed

subsection \<open>The concrete inputs, field by field\<close>

lemma stub_values [simp]:
  "QUEUE_NAME default_config = ''rag:jobs''"
  "RESULT_PREFIX default_config = ''rag:result:''"
  "RESULT_TTL default_config = 3600"
  "BRPOP_TIMEOUT default_config = 5"
  "WORKER_ID default_config = ''worker-local''"
  "redis_fault stub_env at = None"
  "rag_answer stub_env q = Inr (''30 days'', JArr [])"
  "utcnow_completed stub_env = ''2024-01-01T00:00:05''"
  "utcnow_error stub_env = ''2024-01-01T00:00:06''"
  "signal_at stub_env = None"
  "redis_fault rejecting_env at =
     (if at = At_result_hset then Some (ConnectionError ''Connection reset by peer'') else None)"
  "rag_answer rejecting_env q = Inr (''30 days'', JArr [])"
  "utcnow_completed rejecting_env = ''2024-01-01T00:00:05''"
  "utcnow_error rejecting_env = ''2024-01-01T00:00:06''"
  "signal_at rejecting_env = None"
  "redis_fault later_env at = None"
  "rag_answer later_env q = Inr (''14 days'', JArr [])"
  "utcnow_completed later_env = ''2024-01-01T00:01:05''"
  "signal_at later_env = None"
  "redis_fault failing_env at = None"
  "rag_answer failing_env q = Inl (OtherError ''Ollama call failed'')"
  "signal_at failing_env = None"
  "redis_fault offline_env at =
     (if at = At_brpop then None else Some (ConnectionError ''Connection refused''))"
  "rag_answer offline_env q = Inr (''30 days'', JArr [])"
  "signal_at offline_env = None"
  "redis_fault signalled_env at = None"
  "rag_answer signalled_env q = Inr (''30 days'', JArr [])"
  "signal_at signalled_env = Some (In_job, 15)"
  "redis_fault unreachable_env at = Some (ConnectionError ''Connection refused'')"
  "signal_at unreachable_env = None"
  "json_loads stub_lib job_abc123_payload = Some job_abc123"
  "json_loads stub_lib empty_question_payload = Some empty_question_job"
  "json_loads stub_lib no_job_id_payload = Some no_job_id_job"
  "json_loads stub_lib ''not-json'' = None"
  "json_dumps stub_lib (JArr []) = ''[]''"
  "queue (idle_state q') = q'"
  "store (idle_state q') = Map.empty"
  "ttl (idle_state q') = Map.empty"
  "agent_inflight (idle_state q') = 0"
  "agent_jobs_processed (idle_state q') = (\<lambda>l. 0)"
  "agent_job_duration (idle_state q') = 0"
  "shutdown (idle_state q') = False"
  "trace (idle_state q') = []"
  "hget (idle_state q') k f = None"
  by (simp_all add: default_config_def stub_env_def rejecting_env_def stub_lib_def
      later_env_def failing_env_def offline_env_def signalled_env_def unreachable_env_def
      idle_state_def hget_def job_abc123_payload_def empty_question_payload_def
      no_job_id_payload_def)

section \<open>The inflight gauge\<close>

lemma iteration_inflight_unchanged: "agent_inflight (iteration c L e s) = agent_inflight s"
  by (simp add: iteration_fields iteration_body_def client_brpop_def redis_brpop_def Let_def
      split_beta job_finally_def prim_defs split: option.splits sum.splits json.splits)



section \<open>Jobs the store accepts\<close>

lemma iteration_completed:
  assumes "queue s \<noteq> []" and "redis_fault e At_brpop = None"
    and "json_loads L (last (queue s)) = Some (JObj d)"
    and "truthy (dict_get d ''question'' (JStr []))"
    and "slice50 (dict_get d ''question'' (JStr [])) = Inr q50"
    and "rag_answer e (dict_get d ''question'' (JStr [])) = Inr (a, srcs)"
    and "redis_fault e At_result_hset = None" and "redis_fault e At_result_expire = None"
    and "0 < RESULT_TTL c"
    and "key = RESULT_PREFIX c @ fmt L (dict_get d ''job_id'' (JStr ''unknown''))"
    and "m = [(''status'', ''completed''), (''answer'', a), (''sources'', json_dumps L srcs),
              (''worker_id'', WORKER_ID c), (''completed_at'', utcnow_completed e)]"
  shows "hget (iteration c L e s) key f =
           (case map_of m f of Some v \<Rightarrow> Some v | None \<Rightarrow> hget s key f)"
    and "ttl (iteration c L e s) key = Some (RESULT_TTL c)"
    and "agent_jobs_processed (iteration c L e s) =
           (agent_jobs_processed s)(''ok'' := Suc (agent_jobs_processed s ''ok''))"
    and "filter is_write (trace (iteration c L e s)) = filter is_write (trace s) @
           [Cmd (HSET key m), Cmd (EXPIRE key (RESULT_TTL c))]"
proof -
  note it = iteration_of_job [OF assms(1-3) refl, of c]
  note jt = job_try_completed_effects [OF assms(4-9) assms(11)]
  have w: "filter is_write (trace (job_claimed c e s)) = filter is_write (trace s)"
    by (simp add: job_claimed_filter)
  show "hget (iteration c L e s) key f =
           (case map_of m f of Some v \<Rightarrow> Some v | None \<Rightarrow> hget s key f)"
    by (simp add: it jt assms(10) cong: option.case_cong)
  show "ttl (iteration c L e s) key = Some (RESULT_TTL c)"
    by (simp add: it jt assms(10))
  show "agent_jobs_processed (iteration c L e s) =
           (agent_jobs_processed s)(''ok'' := Suc (agent_jobs_processed s ''ok''))"
    by (simp add: it jt)
  show "filter is_write (trace (iteration c L e s)) = filter is_write (trace s) @
           [Cmd (HSET key m), Cmd (EXPIRE key (RESULT_TTL c))]"
    by (simp add: it jt w assms(10))
qed

lemma iteration_no_question:
  assumes "queue s \<noteq> []" and "redis_fault e At_brpop = None"
    and "json_loads L (last (queue s)) = Some (JObj d)"
    and "\<not> truthy (dict_get d ''question'' (JStr []))"
    and "redis_fault e At_error_hset = None" and "redis_fault e At_error_expire = None"
    and "0 < RESULT_TTL c"
    and "key = RESULT_PREFIX c @ fmt L (dict_get d ''job_id'' (JStr ''unknown''))"
    and "m = error_mapping c e ''Job missing 'question' field''"
  shows "hget (iteration c L e s) key f =
           (case map_of m f of Some v \<Rightarrow> Some v | None \<Rightarrow> hget s key f)"
    and "ttl (iteration c L e s) key = Some (RESULT_TTL c)"
    and "agent_jobs_processed (iteration c L e s) =
           (agent_jobs_processed s)(''err'' := Suc (agent_jobs_processed s ''err''))"
    and "filter is_write (trace (iteration c L e s)) = filter is_write (trace s) @
           [Cmd (HSET key m), Cmd (EXPIRE key (RESULT_TTL c))]"
proof -
  note it = iteration_of_job [OF assms(1-3) refl, of c]
  note jt = job_try_no_question [OF assms(4)]
  note je = job_except_effects [OF assms(5-7)]
  have w: "filter is_write (trace (job_claimed c e s)) = filter is_write (trace s)"
    by (simp add: job_claimed_filter)
  show "hget (iteration c L e s) key f =
           (case map_of m f of Some v \<Rightarrow> Some v | None \<Rightarrow> hget s key f)"
    by (simp add: it jt je assms(8,9) cong: option.case_cong)
  show "ttl (iteration c L e s) key = Some (RESULT_TTL c)"
    by (simp add: it jt je assms(8))
  show "agent_jobs_processed (iteration c L e s) =
           (agent_jobs_processed s)(''err'' := Suc (agent_jobs_processed s ''err''))"
    by (simp add: it jt je)
  show "filter is_write (trace (iteration c L e s)) = filter is_write (trace s) @
           [Cmd (HSET key m), Cmd (EXPIRE key (RESULT_TTL c))]"
    by (simp add: it jt je w assms(8,9))
qed

lemma iteration_pipeline_failed:
  assumes "queue s \<noteq> []" and "redis_fault e At_brpop = None"
    and "json_loads L (last (queue s)) = Some (JObj d)"
    and "truthy (dict_get d ''question'' (JStr []))"
    and "slice50 (dict_get d ''question'' (JStr [])) = Inr q50"
    and "rag_answer e (dict_get d ''question'' (JStr [])) = Inl x"
    and "redis_fault e At_error_hset = None" and "redis_fault e At_error_expire = None"
    and "0 < RESULT_TTL c"
    and "key = RESULT_PREFIX c @ fmt L (dict_get d ''job_id'' (JStr ''unknown''))"
    and "m = error_mapping c e (str_exn x)"
  shows "hget (iteration c L e s) key f =
           (case map_of m f of Some v \<Rightarrow> Some v | None \<Rightarrow> hget s key f)"
    and "ttl (iteration c L e s) key = Some (RESULT_TTL c)"
    and "agent_jobs_processed (iteration c L e s) =
           (agent_jobs_processed s)(''err'' := Suc (agent_jobs_processed s ''err''))"
    and "filter is_write (trace (iteration c L e s)) = filter is_write (trace s) @
           [Cmd (HSET key m), Cmd (EXPIRE key (RESULT_TTL c))]"
proof -
  note it = iteration_of_job [OF assms(1-3) refl, of c]
  note jt = job_try_pipeline_failed [OF assms(4-6)]
  note je = job_except_effects [OF assms(7-9)]
  have w: "filter is_write (trace (job_claimed c e s)) = filter is_write (trace s)"
    by (simp add: job_claimed_filter)
  show "hget (iteration c L e s) key f =
           (case map_of m f of Some v \<Rightarrow> Some v | None \<Rightarrow> hget s key f)"
    by (simp add: it jt je assms(10,11) cong: option.case_cong)
  show "ttl (iteration c L e s) key = Some (RESULT_TTL c)"
    by (simp add: it jt je assms(10))
  show "agent_jobs_processed (iteration c L e s) =
           (agent_jobs_processed s)(''err'' := Suc (agent_jobs_processed s ''err''))"
    by (simp add: it jt je emit_def)
  show "filter is_write (trace (iteration c L e s)) = filter is_write (trace s) @
           [Cmd (HSET key m), Cmd (EXPIRE key (RESULT_TTL c))]"
    by (simp add: it jt je w assms(10,11) emit_def)
qed

text \<open>
  C6. For every popped payload that decodes to an object with a string \<open>job_id\<close> and a
  non-empty string \<open>question\<close>, when the pipeline answers and the store accepts the two
  commands of \<open>store_result\<close> (and the configured retention is positive), the hash at
  \<open>RESULT_PREFIX + job_id\<close> reads \<open>status = completed\<close>, the pipeline's answer, the
  JSON-encoded sources, the worker identity and the completion timestamp, and the key's
  time-to-live is \<open>RESULT_TTL\<close>; the writes of the pass are exactly the \<open>HSET\<close> of the
  record followed at once by the \<open>EXPIRE\<close> of the same key, both issued by the one call
  of \<open>store_result\<close>. The default retention is 3600 seconds.
\<close>

theorem completed_result_record:
  assumes "queue s \<noteq> []" and "redis_fault e At_brpop = None"
    and "json_loads L (last (queue s)) = Some (JObj d)"
    and "map_of d ''job_id'' = Some (JStr j)"
    and "map_of d ''question'' = Some (JStr q)" and "q \<noteq> []"
    and "rag_answer e (JStr q) = Inr (a, srcs)"
    and "redis_fault e At_result_hset = None" and "redis_fault e At_result_expire = None"
    and "0 < RESULT_TTL c"
  shows "hget (iteration c L e s) (RESULT_PREFIX c @ j) ''status'' = Some ''completed'' \<and>
         hget (iteration c L e s) (RESULT_PREFIX c @ j) ''answer'' = Some a \<and>
         hget (iteration c L e s) (RESULT_PREFIX c @ j) ''sources'' = Some (json_dumps L srcs) \<and>
         hget (iteration c L e s) (RESULT_PREFIX c @ j) ''worker_id'' = Some (WORKER_ID c) \<and>
         hget (iteration c L e s) (RESULT_PREFIX c @ j) ''completed_at''
           = Some (utcnow_completed e) \<and>
         ttl (iteration c L e s) (RESULT_PREFIX c @ j) = Some (RESULT_TTL c) \<and>
         filter is_write (trace (iteration c L e s)) = filter is_write (trace s) @
           [Cmd (HSET (RESULT_PREFIX c @ j)
              [(''status'', ''completed''), (''answer'', a), (''sources'', json_dumps L srcs),
               (''worker_id'', WORKER_ID c), (''completed_at'', utcnow_completed e)]),
            Cmd (EXPIRE (RESULT_PREFIX c @ j) (RESULT_TTL c))] \<and>
         RESULT_TTL default_config = 3600"
proof -
  have q: "dict_get d ''question'' (JStr []) = JStr q"
    and j: "dict_get d ''job_id'' (JStr ''unknown'') = JStr j"
    using assms(4,5) by (simp_all add: dict_get_def)
  have h4: "truthy (dict_get d ''question'' (JStr []))" using assms(6) by (simp add: q)
  have h5: "slice50 (dict_get d ''question'' (JStr [])) = Inr (JStr (take 50 q))"
    by (simp add: q)
  have h6: "rag_answer e (dict_get d ''question'' (JStr [])) = Inr (a, srcs)"
    using assms(7) by (simp add: q)
  have k: "RESULT_PREFIX c @ j = RESULT_PREFIX c @ fmt L (dict_get d ''job_id'' (JStr ''unknown''))"
    by (simp add: j fmt_def)
  note r = iteration_completed [OF assms(1-3) h4 h5 h6 assms(8-10) k refl]
  show ?thesis
    by (simp add: r default_config_def)
qed

theorem completed_result_record_witness:
  "queue (idle_state [job_abc123_payload]) \<noteq> [] \<and>
   redis_fault stub_env At_brpop = None \<and>
   redis_fault stub_env At_result_hset = None \<and>
   redis_fault stub_env At_result_expire = None \<and>
   json_loads stub_lib (last (queue (idle_state [job_abc123_payload]))) = Some job_abc123 \<and>
   rag_answer stub_env (JStr ''What is the refund policy?'') = Inr (''30 days'', JArr []) \<and>
   0 < RESULT_TTL default_config \<and>
   hget (iteration default_config stub_lib stub_env (idle_state [job_abc123_payload]))
     ''rag:result:job_abc123'' ''status'' = Some ''completed'' \<and>
   hget (iteration default_config stub_lib stub_env (idle_state [job_abc123_payload]))
     ''rag:result:job_abc123'' ''answer'' = Some ''30 days'' \<and>
   hget (iteration default_config stub_lib stub_env (idle_state [job_abc123_payload]))
     ''rag:result:job_abc123'' ''sources'' = Some ''[]'' \<and>
   ttl (iteration default_config stub_lib stub_env (idle_state [job_abc123_payload]))
     ''rag:result:job_abc123'' = Some 3600"
proof -
  have h1: "queue (idle_state [job_abc123_payload]) \<noteq> []"
    by (simp add: idle_state_def)
  have h2: "redis_fault stub_env At_brpop = None"
    and h8: "redis_fault stub_env At_result_hset = None"
    and h9: "redis_fault stub_env At_result_expire = None"
    and h7: "rag_answer stub_env (JStr ''What is the refund policy?'') = Inr (''30 days'', JArr [])"
    by (simp_all add: stub_env_def)
  have h3: "json_loads stub_lib (last (queue (idle_state [job_abc123_payload]))) =
      Some (JObj [(''job_id'', JStr ''job_abc123''),
                  (''question'', JStr ''What is the refund policy?''),
                  (''submitted_at'', JStr ''2024-01-01T00:00:00Z'')])"
    by (simp add: idle_state_def stub_lib_def job_abc123_def)
  have h4: "map_of [(''job_id'', JStr ''job_abc123''),
                  (''question'', JStr ''What is the refund policy?''),
                  (''submitted_at'', JStr ''2024-01-01T00:00:00Z'')] ''job_id'' = Some (JStr ''job_abc123'')"
    and h5: "map_of [(''job_id'', JStr ''job_abc123''),
                  (''question'', JStr ''What is the refund policy?''),
                  (''submitted_at'', JStr ''2024-01-01T00:00:00Z'')] ''question''
               = Some (JStr ''What is the refund policy?'')"
    and h6: "''What is the refund policy?'' \<noteq> []"
    by simp_all
  have h10: "0 < RESULT_TTL default_config"
    by (simp add: default_config_def)
  show ?thesis
    using h1 h2 h3 h7 h8 h9 h10 completed_result_record [OF h1 h2 h3 h4 h5 h6 h7 h8 h9 h10]
    by (simp add: default_config_def stub_lib_def job_abc123_def)
qed

text \<open>
  C4. For every popped payload that decodes to an object whose \<open>question\<close> is missing
  or empty (or any other value Python takes as false), when the store accepts the error
  write, the worker writes under the key of that job's \<open>job_id\<close> a record with
  \<open>status = error\<close> and the message \<open>Job missing 'question' field\<close>, and increments
  the \<open>err\<close> counter only. The only writes of the pass are that \<open>HSET\<close> and its
  \<open>EXPIRE\<close>, so no completed record is written, and the job goes through the job
  accounting (its duration is observed), which a parse failure does not.
\<close>

theorem empty_question_error_record:
  assumes "queue s \<noteq> []" and "redis_fault e At_brpop = None"
    and "json_loads L (last (queue s)) = Some (JObj d)"
    and "\<not> truthy (dict_get d ''question'' (JStr []))"
    and "redis_fault e At_error_hset = None" and "redis_fault e At_error_expire = None"
    and "0 < RESULT_TTL c"
    and "key = RESULT_PREFIX c @ fmt L (dict_get d ''job_id'' (JStr ''unknown''))"
  shows "hget (iteration c L e s) key ''status'' = Some ''error'' \<and>
         hget (iteration c L e s) key ''error'' = Some ''Job missing 'question' field'' \<and>
         ttl (iteration c L e s) key = Some (RESULT_TTL c) \<and>
         agent_jobs_processed (iteration c L e s) =
           (agent_jobs_processed s)(''err'' := Suc (agent_jobs_processed s ''err'')) \<and>
         filter is_write (trace (iteration c L e s)) = filter is_write (trace s) @
           [Cmd (HSET key [(''status'', ''error''), (''error'', ''Job missing 'question' field''),
                           (''worker_id'', WORKER_ID c), (''completed_at'', utcnow_error e)]),
            Cmd (EXPIRE key (RESULT_TTL c))] \<and>
         agent_job_duration (iteration c L e s) = Suc (agent_job_duration s)"
proof -
  note r = iteration_no_question [OF assms(1-8) refl]
  note it = iteration_of_job [OF assms(1-3) refl, of c]
  show ?thesis
    by (simp add: r it(5) error_mapping_def)
qed

theorem empty_question_error_record_witness:
  "queue (idle_state [empty_question_payload]) \<noteq> [] \<and>
   redis_fault stub_env At_brpop = None \<and>
   redis_fault stub_env At_error_hset = None \<and>
   redis_fault stub_env At_error_expire = None \<and>
   json_loads stub_lib (last (queue (idle_state [empty_question_payload])))
     = Some empty_question_job \<and>
   \<not> truthy (JStr []) \<and>
   0 < RESULT_TTL default_config \<and>
   hget (iteration default_config stub_lib stub_env (idle_state [empty_question_payload]))
     ''rag:result:job_empty'' ''status'' = Some ''error'' \<and>
   hget (iteration default_config stub_lib stub_env (idle_state [empty_question_payload]))
     ''rag:result:job_empty'' ''error'' = Some ''Job missing 'question' field'' \<and>
   agent_jobs_processed
     (iteration default_config stub_lib stub_env (idle_state [empty_question_payload])) ''err'' = 1 \<and>
   agent_jobs_processed
     (iteration default_config stub_lib stub_env (idle_state [empty_question_payload])) ''ok'' = 0"
proof -
  have h1: "queue (idle_state [empty_question_payload]) \<noteq> []"
    by (simp add: idle_state_def)
  have h2: "redis_fault stub_env At_brpop = None"
    and h5: "redis_fault stub_env At_error_hset = None"
    and h6: "redis_fault stub_env At_error_expire = None"
    by (simp_all add: stub_env_def)
  have h3: "json_loads stub_lib (last (queue (idle_state [empty_question_payload]))) =
      Some (JObj [(''job_id'', JStr ''job_empty''), (''question'', JStr [])])"
    by (simp add: idle_state_def stub_lib_def empty_question_job_def
        empty_question_payload_def job_abc123_payload_def)
  have h4: "\<not> truthy (dict_get [(''job_id'', JStr ''job_empty''), (''question'', JStr [])]
               ''question'' (JStr []))"
    by (simp add: dict_get_def)
  have h7: "0 < RESULT_TTL default_config"
    by (simp add: default_config_def)
  have h8: "''rag:result:job_empty'' = RESULT_PREFIX default_config @
      fmt stub_lib (dict_get [(''job_id'', JStr ''job_empty''), (''question'', JStr [])]
        ''job_id'' (JStr ''unknown''))"
    by (simp add: default_config_def dict_get_def fmt_def)
  show ?thesis
    using h1 h2 h3 h5 h6 h7 empty_question_error_record [OF h1 h2 h3 h4 h5 h6 h7 h8]
    by (simp add: empty_question_job_def idle_state_def)
qed

section \<open>Malformed payloads\<close>




section \<open>Writes the store rejects\<close>

lemma store_result_outcome:
  "fst (store_result c L e j r s) =
     (case redis_fault e At_result_hset of Some x \<Rightarrow> Some x
      | None \<Rightarrow> redis_fault e At_result_expire)"
  "filter is_write (trace (snd (store_result c L e j r s))) = filter is_write (trace s) @
     Cmd (HSET (RESULT_PREFIX c @ fmt L j) (result_mapping L r)) #
     (if redis_fault e At_result_hset = None
      then [Cmd (EXPIRE (RESULT_PREFIX c @ fmt L j) (RESULT_TTL c))] else [])"
  by (simp_all add: store_result_def client_hset_def client_expire_def Let_def prim_defs
      split: option.splits)

lemma store_error_outcome:
  "fst (store_error c L e j msg s) =
     (case redis_fault e At_error_hset of Some x \<Rightarrow> Some x
      | None \<Rightarrow> redis_fault e At_error_expire)"
  "filter is_write (trace (snd (store_error c L e j msg s))) = filter is_write (trace s) @
     Cmd (HSET (RESULT_PREFIX c @ fmt L j) (error_mapping c e msg)) #
     (if redis_fault e At_error_hset = None
      then [Cmd (EXPIRE (RESULT_PREFIX c @ fmt L j) (RESULT_TTL c))] else [])"
  "set (trace s) \<subseteq> set (trace (snd (store_error c L e j msg s)))"
  by (auto simp add: store_error_def client_hset_def client_expire_def Let_def prim_defs
      split: option.splits)

lemma job_except_outcome:
  "filter is_write (trace (snd (job_except c L e j x s))) = filter is_write (trace s) @
     Cmd (HSET (RESULT_PREFIX c @ fmt L j) (error_mapping c e (str_exn x))) #
     (if redis_fault e At_error_hset = None
      then [Cmd (EXPIRE (RESULT_PREFIX c @ fmt L j) (RESULT_TTL c))] else [])"
  "Print (Log_job_failed (fmt L j) (str_exn x)) \<in> set (trace (snd (job_except c L e j x s)))"
  "agent_jobs_processed (snd (job_except c L e j x s)) ''ok'' = agent_jobs_processed s ''ok''"
  "redis_fault e At_error_hset \<noteq> None \<or> redis_fault e At_error_expire \<noteq> None \<Longrightarrow>
     agent_jobs_processed (snd (job_except c L e j x s)) = agent_jobs_processed s"
proof -
  let ?s1 = "emit (Print (Log_job_failed (fmt L j) (str_exn x))) s"
  show "filter is_write (trace (snd (job_except c L e j x s))) = filter is_write (trace s) @
     Cmd (HSET (RESULT_PREFIX c @ fmt L j) (error_mapping c e (str_exn x))) #
     (if redis_fault e At_error_hset = None
      then [Cmd (EXPIRE (RESULT_PREFIX c @ fmt L j) (RESULT_TTL c))] else [])"
    by (simp add: job_except_def Let_def split_beta store_error_outcome prim_defs
        split: option.splits)
  have "Print (Log_job_failed (fmt L j) (str_exn x)) \<in> set (trace ?s1)"
    by (simp add: emit_def)
  then have "Print (Log_job_failed (fmt L j) (str_exn x))
      \<in> set (trace (snd (store_error c L e j (str_exn x) ?s1)))"
    using store_error_outcome(3) by blast
  then show "Print (Log_job_failed (fmt L j) (str_exn x))
      \<in> set (trace (snd (job_except c L e j x s)))"
    by (simp add: job_except_def Let_def split_beta prim_defs split: option.splits)
  show "agent_jobs_processed (snd (job_except c L e j x s)) ''ok'' = agent_jobs_processed s ''ok''"
    by (simp add: job_except_def Let_def split_beta prim_defs split: option.splits)
  show "agent_jobs_processed (snd (job_except c L e j x s)) = agent_jobs_processed s"
    if "redis_fault e At_error_hset \<noteq> None \<or> redis_fault e At_error_expire \<noteq> None"
    using that
    by (auto simp add: job_except_def Let_def split_beta store_error_outcome(1) emit_def
        split: option.splits)
qed

lemma job_try_store_rejected:
  assumes "truthy (dict_get d ''question'' (JStr []))"
    and "slice50 (dict_get d ''question'' (JStr [])) = Inr q50"
    and "rag_answer e (dict_get d ''question'' (JStr [])) = Inr (a, srcs)"
    and "redis_fault e At_result_hset = Some x \<or>
         redis_fault e At_result_hset = None \<and> redis_fault e At_result_expire = Some x"
    and "r = \<lparr>r_job_id = dict_get d ''job_id'' (JStr ''unknown''), r_status = ''completed'',
        r_question = dict_get d ''question'' (JStr []), r_answer = a, r_sources = srcs,
        r_worker_id = WORKER_ID c, r_completed_at = utcnow_completed e\<rparr>"
  shows "job_try c L e j d s = job_except c L e j x
      (snd (store_result c L e j r
         (emit (Print (Log_processing (fmt L (dict_get d ''job_id'' (JStr ''unknown''))) q50)) s)))"
  using assms(4)
  by (auto simp add: job_try_def process_job_answered [OF assms(1-3)] split_beta
      store_result_outcome(1) assms(5))

lemma trace_grows:
  "set (trace s) \<subseteq> set (trace (deliver e p s))"
  "set (trace s) \<subseteq> set (trace (job_finally L j s))"
  "set (trace (snd (iteration_body c L e s))) \<subseteq> set (trace (iteration c L e s))"
  by (auto simp add: deliver_def job_finally_def iteration_def prim_defs split_beta
      split: option.splits prod.splits)

lemma iteration_store_rejected:
  assumes "queue s \<noteq> []" and "redis_fault e At_brpop = None"
    and "json_loads L (last (queue s)) = Some (JObj d)"
    and "truthy (dict_get d ''question'' (JStr []))"
    and "slice50 (dict_get d ''question'' (JStr [])) = Inr q50"
    and "rag_answer e (dict_get d ''question'' (JStr [])) = Inr (a, srcs)"
    and "redis_fault e At_result_hset = Some x \<or>
         redis_fault e At_result_hset = None \<and> redis_fault e At_result_expire = Some x"
    and "j = dict_get d ''job_id'' (JStr ''unknown'')"
    and "key = RESULT_PREFIX c @ fmt L j"
  shows "filter is_write (trace (iteration c L e s)) = filter is_write (trace s) @
           (Cmd (HSET key [(''status'', ''completed''), (''answer'', a),
                           (''sources'', json_dumps L srcs), (''worker_id'', WORKER_ID c),
                           (''completed_at'', utcnow_completed e)]) #
            (if redis_fault e At_result_hset = None
             then [Cmd (EXPIRE key (RESULT_TTL c))] else [])) @
           (Cmd (HSET key (error_mapping c e (str_exn x))) #
            (if redis_fault e At_error_hset = None
             then [Cmd (EXPIRE key (RESULT_TTL c))] else []))"
    and "Print (Log_job_failed (fmt L j) (str_exn x)) \<in> set (trace (iteration c L e s))"
    and "agent_jobs_processed (iteration c L e s) ''ok'' = agent_jobs_processed s ''ok''"
    and "redis_fault e At_error_hset = None \<Longrightarrow> redis_fault e At_error_expire = None \<Longrightarrow>
         0 < RESULT_TTL c \<Longrightarrow>
           agent_jobs_processed (iteration c L e s) ''err'' = Suc (agent_jobs_processed s ''err'') \<and>
           hget (iteration c L e s) key ''status'' = Some ''error'' \<and>
           hget (iteration c L e s) key ''error'' = Some (str_exn x)"
    and "redis_fault e At_error_hset \<noteq> None \<or> redis_fault e At_error_expire \<noteq> None \<Longrightarrow>
           agent_jobs_processed (iteration c L e s) = agent_jobs_processed s"
proof -
  define r where "r = \<lparr>r_job_id = dict_get d ''job_id'' (JStr ''unknown''), r_status = ''completed'',
        r_question = dict_get d ''question'' (JStr []), r_answer = a, r_sources = srcs,
        r_worker_id = WORKER_ID c, r_completed_at = utcnow_completed e\<rparr>"
  define t where "t = snd (store_result c L e j r
         (emit (Print (Log_processing (fmt L (dict_get d ''job_id'' (JStr ''unknown''))) q50))
            (job_claimed c e s)))"
  note it = iteration_of_job [OF assms(1-3) assms(8), of c]
  have jt: "job_try c L e j d (job_claimed c e s) = job_except c L e j x t"
    unfolding t_def by (rule job_try_store_rejected [OF assms(4-7) r_def])
  have w: "filter is_write (trace (job_claimed c e s)) = filter is_write (trace s)"
    by (simp add: job_claimed_filter)
  have tw: "filter is_write (trace t) = filter is_write (trace s) @
      Cmd (HSET key (result_mapping L r)) #
      (if redis_fault e At_result_hset = None then [Cmd (EXPIRE key (RESULT_TTL c))] else [])"
    by (simp add: t_def store_result_outcome(2) emit_def w assms(9))
  have tc: "agent_jobs_processed t = agent_jobs_processed s"
    by (simp add: t_def emit_def)
  show "filter is_write (trace (iteration c L e s)) = filter is_write (trace s) @
           (Cmd (HSET key [(''status'', ''completed''), (''answer'', a),
                           (''sources'', json_dumps L srcs), (''worker_id'', WORKER_ID c),
                           (''completed_at'', utcnow_completed e)]) #
            (if redis_fault e At_result_hset = None
             then [Cmd (EXPIRE key (RESULT_TTL c))] else [])) @
           (Cmd (HSET key (error_mapping c e (str_exn x))) #
            (if redis_fault e At_error_hset = None
             then [Cmd (EXPIRE key (RESULT_TTL c))] else []))"
    by (simp add: it jt job_except_outcome(1) tw assms(9) result_mapping_def r_def)
  have "Print (Log_job_failed (fmt L j) (str_exn x)) \<in> set (trace (snd (job_except c L e j x t)))"
    by (rule job_except_outcome(2))
  then have "Print (Log_job_failed (fmt L j) (str_exn x))
      \<in> set (trace (snd (iteration_body c L e s)))"
    using trace_grows(1,2)
    by (simp add: iteration_body_claimed [OF assms(1-3), folded assms(8)] jt) blast
  then show "Print (Log_job_failed (fmt L j) (str_exn x)) \<in> set (trace (iteration c L e s))"
    using trace_grows(3) by blast
  show "agent_jobs_processed (iteration c L e s) ''ok'' = agent_jobs_processed s ''ok''"
    by (simp add: it jt job_except_outcome(3) tc)
  show "agent_jobs_processed (iteration c L e s) ''err'' = Suc (agent_jobs_processed s ''err'') \<and>
           hget (iteration c L e s) key ''status'' = Some ''error'' \<and>
           hget (iteration c L e s) key ''error'' = Some (str_exn x)"
    if "redis_fault e At_error_hset = None" "redis_fault e At_error_expire = None"
       "0 < RESULT_TTL c"
    by (simp add: it jt job_except_effects [OF that] tc assms(9) error_mapping_def)
  show "agent_jobs_processed (iteration c L e s) = agent_jobs_processed s"
    if "redis_fault e At_error_hset \<noteq> None \<or> redis_fault e At_error_expire \<noteq> None"
    by (simp add: it jt job_except_outcome(4) [OF that] tc)
qed

text \<open>
  C5, as the code has it. For every job whose pipeline succeeds and whose result write
  the store rejects (at the \<open>HSET\<close>, or at the \<open>EXPIRE\<close> after an accepted
  \<open>HSET\<close>), the exception is caught by the handler of the job: the failure is logged,
  and the worker then issues the write of an error record for the same key, carrying the
  message of the exception. The \<open>ok\<close> counter is never incremented and the inflight
  gauge returns to its value. When the store accepts that error write, the record reads
  \<open>status = error\<close> and the \<open>err\<close> counter is incremented, so the job is counted as
  failed; when the store rejects it too, no counter changes. In both cases the loop goes
  on, the shutdown flag unchanged unless a signal arrived.
\<close>

theorem rejected_result_write_takes_error_path:
  assumes "queue s \<noteq> []" and "redis_fault e At_brpop = None"
    and "json_loads L (last (queue s)) = Some (JObj d)"
    and "truthy (dict_get d ''question'' (JStr []))"
    and "slice50 (dict_get d ''question'' (JStr [])) = Inr q50"
    and "rag_answer e (dict_get d ''question'' (JStr [])) = Inr (a, srcs)"
    and "redis_fault e At_result_hset = Some x \<or>
         redis_fault e At_result_hset = None \<and> redis_fault e At_result_expire = Some x"
    and "j = dict_get d ''job_id'' (JStr ''unknown'')"
    and "key = RESULT_PREFIX c @ fmt L j"
  shows "filter is_write (trace (iteration c L e s)) = filter is_write (trace s) @
           (Cmd (HSET key [(''status'', ''completed''), (''answer'', a),
                           (''sources'', json_dumps L srcs), (''worker_id'', WORKER_ID c),
                           (''completed_at'', utcnow_completed e)]) #
            (if redis_fault e At_result_hset = None
             then [Cmd (EXPIRE key (RESULT_TTL c))] else [])) @
           (Cmd (HSET key (error_mapping c e (str_exn x))) #
            (if redis_fault e At_error_hset = None
             then [Cmd (EXPIRE key (RESULT_TTL c))] else [])) \<and>
         Print (Log_job_failed (fmt L j) (str_exn x)) \<in> set (trace (iteration c L e s)) \<and>
         agent_jobs_processed (iteration c L e s) ''ok'' = agent_jobs_processed s ''ok'' \<and>
         agent_inflight (iteration c L e s) = agent_inflight s \<and>
         (redis_fault e At_error_hset = None \<and> redis_fault e At_error_expire = None \<and>
          0 < RESULT_TTL c \<longrightarrow>
            agent_jobs_processed (iteration c L e s) ''err''
              = Suc (agent_jobs_processed s ''err'') \<and>
            hget (iteration c L e s) key ''status'' = Some ''error'' \<and>
            hget (iteration c L e s) key ''error'' = Some (str_exn x)) \<and>
         (redis_fault e At_error_hset \<noteq> None \<or> redis_fault e At_error_expire \<noteq> None \<longrightarrow>
            agent_jobs_processed (iteration c L e s) = agent_jobs_processed s) \<and>
         (signal_at e = None \<longrightarrow> shutdown (iteration c L e s) = shutdown s)"
proof -
  note r = iteration_store_rejected [OF assms]
  note it = iteration_of_job [OF assms(1-3) assms(8), of c]
  show ?thesis
    using r(4,5) by (simp add: r(1,2,3) it(7) iteration_inflight_unchanged)
qed

theorem rejected_result_write_takes_error_path_witness:
  "queue (idle_state [job_abc123_payload]) \<noteq> [] \<and>
   redis_fault rejecting_env At_brpop = None \<and>
   json_loads stub_lib (last (queue (idle_state [job_abc123_payload]))) = Some job_abc123 \<and>
   rag_answer rejecting_env (JStr ''What is the refund policy?'') = Inr (''30 days'', JArr []) \<and>
   redis_fault rejecting_env At_result_hset = Some (ConnectionError ''Connection reset by peer'') \<and>
   redis_fault rejecting_env At_error_hset = None \<and>
   redis_fault rejecting_env At_error_expire = None \<and>
   signal_at rejecting_env = None \<and>
   0 < RESULT_TTL default_config \<and>
   Print (Log_job_failed ''job_abc123'' ''Connection reset by peer'')
     \<in> set (trace (iteration default_config stub_lib rejecting_env
                       (idle_state [job_abc123_payload]))) \<and>
   agent_jobs_processed
     (iteration default_config stub_lib rejecting_env (idle_state [job_abc123_payload])) ''ok'' = 0 \<and>
   agent_jobs_processed
     (iteration default_config stub_lib rejecting_env (idle_state [job_abc123_payload])) ''err'' = 1 \<and>
   hget (iteration default_config stub_lib rejecting_env (idle_state [job_abc123_payload]))
     ''rag:result:job_abc123'' ''error'' = Some ''Connection reset by peer'' \<and>
   \<not> shutdown (iteration default_config stub_lib rejecting_env (idle_state [job_abc123_payload])) \<and>
   redis_fault offline_env At_result_hset = Some (ConnectionError ''Connection refused'') \<and>
   redis_fault offline_env At_error_hset \<noteq> None \<and>
   agent_jobs_processed
     (iteration default_config stub_lib offline_env (idle_state [job_abc123_payload]))
     = (\<lambda>l. 0)"
proof -
  let ?d = "[(''job_id'', JStr ''job_abc123''),
             (''question'', JStr ''What is the refund policy?''),
             (''submitted_at'', JStr ''2024-01-01T00:00:00Z'')]"
  have h1: "queue (idle_state [job_abc123_payload]) \<noteq> []"
    by simp
  have h2: "redis_fault rejecting_env At_brpop = None"
    by simp
  have h3: "json_loads stub_lib (last (queue (idle_state [job_abc123_payload]))) = Some (JObj ?d)"
    by (simp add: job_abc123_def)
  have h4: "truthy (dict_get ?d ''question'' (JStr []))"
    and h5: "slice50 (dict_get ?d ''question'' (JStr [])) = Inr (JStr ''What is the refund policy?'')"
    and h6: "rag_answer rejecting_env (dict_get ?d ''question'' (JStr [])) = Inr (''30 days'', JArr [])"
    by (simp_all add: dict_get_def)
  have h7: "redis_fault rejecting_env At_result_hset = Some (ConnectionError ''Connection reset by peer'') \<or>
         redis_fault rejecting_env At_result_hset = None \<and>
         redis_fault rejecting_env At_result_expire = Some (ConnectionError ''Connection reset by peer'')"
    by simp
  have h8: "JStr ''job_abc123'' = dict_get ?d ''job_id'' (JStr ''unknown'')"
    by (simp add: dict_get_def)
  have h9: "''rag:result:job_abc123'' = RESULT_PREFIX default_config @ fmt stub_lib (JStr ''job_abc123'')"
    by (simp add: fmt_def)
  have g2: "redis_fault offline_env At_brpop = None"
    by simp
  have g6: "rag_answer offline_env (dict_get ?d ''question'' (JStr [])) = Inr (''30 days'', JArr [])"
    by simp
  have g7: "redis_fault offline_env At_result_hset = Some (ConnectionError ''Connection refused'') \<or>
         redis_fault offline_env At_result_hset = None \<and>
         redis_fault offline_env At_result_expire = Some (ConnectionError ''Connection refused'')"
    by simp
  show ?thesis
    using rejected_result_write_takes_error_path [OF h1 h2 h3 h4 h5 h6 h7 h8 h9]
      rejected_result_write_takes_error_path [OF h1 g2 h3 h4 h5 g6 g7 h8 h9]
    by (simp add: job_abc123_def fmt_def)
qed

text \<open>
  C5 as stated fails: with a pipeline that answers and a store that drops the connection
  on the \<open>HSET\<close> of the result only, the worker goes on to write an error record and
  counts the job as failed.
\<close>

theorem rejected_result_write_counterexample:
  "rag_answer rejecting_env (JStr ''What is the refund policy?'') = Inr (''30 days'', JArr []) \<and>
   redis_fault rejecting_env At_result_hset = Some (ConnectionError ''Connection reset by peer'') \<and>
   filter is_write (trace (iteration default_config stub_lib rejecting_env
       (idle_state [job_abc123_payload]))) =
     [Cmd (HSET ''rag:result:job_abc123''
        [(''status'', ''completed''), (''answer'', ''30 days''), (''sources'', ''[]''),
         (''worker_id'', ''worker-local''), (''completed_at'', ''2024-01-01T00:00:05'')]),
      Cmd (HSET ''rag:result:job_abc123''
        [(''status'', ''error''), (''error'', ''Connection reset by peer''),
         (''worker_id'', ''worker-local''), (''completed_at'', ''2024-01-01T00:00:06'')]),
      Cmd (EXPIRE ''rag:result:job_abc123'' 3600)] \<and>
   hget (iteration default_config stub_lib rejecting_env (idle_state [job_abc123_payload]))
     ''rag:result:job_abc123'' ''status'' = Some ''error'' \<and>
   agent_jobs_processed
     (iteration default_config stub_lib rejecting_env (idle_state [job_abc123_payload])) ''err'' = 1"
proof -
  let ?d = "[(''job_id'', JStr ''job_abc123''),
             (''question'', JStr ''What is the refund policy?''),
             (''submitted_at'', JStr ''2024-01-01T00:00:00Z'')]"
  have h1: "queue (idle_state [job_abc123_payload]) \<noteq> []"
    by simp
  have h2: "redis_fault rejecting_env At_brpop = None"
    by simp
  have h3: "json_loads stub_lib (last (queue (idle_state [job_abc123_payload]))) = Some (JObj ?d)"
    by (simp add: job_abc123_def)
  have h4: "truthy (dict_get ?d ''question'' (JStr []))"
    and h5: "slice50 (dict_get ?d ''question'' (JStr [])) = Inr (JStr ''What is the refund policy?'')"
    and h6: "rag_answer rejecting_env (dict_get ?d ''question'' (JStr [])) = Inr (''30 days'', JArr [])"
    by (simp_all add: dict_get_def)
  have h7: "redis_fault rejecting_env At_result_hset = Some (ConnectionError ''Connection reset by peer'') \<or>
         redis_fault rejecting_env At_result_hset = None \<and>
         redis_fault rejecting_env At_result_expire = Some (ConnectionError ''Connection reset by peer'')"
    by simp
  have h8: "JStr ''job_abc123'' = dict_get ?d ''job_id'' (JStr ''unknown'')"
    by (simp add: dict_get_def)
  have h9: "''rag:result:job_abc123'' = RESULT_PREFIX default_config @ fmt stub_lib (JStr ''job_abc123'')"
    by (simp add: fmt_def)
  note r = iteration_store_rejected [OF h1 h2 h3 h4 h5 h6 h7 h8 h9]
  show ?thesis
    using r(4) by (simp add: r(1) error_mapping_def)
qed

section \<open>Two writes to one key\<close>

lemma same_fields_overwrite:
  "(h ++ map_of (result_mapping L r1)) ++ map_of (result_mapping L r2)
     = h ++ map_of (result_mapping L r2)"
  "(h ++ map_of (error_mapping c e1 m1)) ++ map_of (error_mapping c e2 m2)
     = h ++ map_of (error_mapping c e2 m2)"
  by (rule ext, simp add: map_add_def result_mapping_def error_mapping_def)+

text \<open>
  C2, as the code has it. Two accepted writes to the key of one \<open>job_id\<close>: when both
  are success writes, or both error writes, the store and the time-to-live after the
  second are those the second write alone produces. When they differ in kind, the hash
  after the second write holds every field of the second write with its value, and keeps
  the fields only the first write set: \<open>answer\<close> and \<open>sources\<close> stay readable under an
  error record written over a success record, and \<open>error\<close> stays readable under a
  success record written over an error record. The time-to-live is that of the second
  write.
\<close>

theorem second_write_sets_its_fields:
  assumes "redis_fault ea At_result_hset = None" and "redis_fault ea At_result_expire = None"
    and "redis_fault ea At_error_hset = None" and "redis_fault ea At_error_expire = None"
    and "redis_fault eb At_result_hset = None" and "redis_fault eb At_result_expire = None"
    and "redis_fault eb At_error_hset = None" and "redis_fault eb At_error_expire = None"
    and "0 < RESULT_TTL c"
    and "key = RESULT_PREFIX c @ fmt L j"
  shows "store (snd (store_result c L eb j rb (snd (store_result c L ea j ra s))))
           = store (snd (store_result c L eb j rb s)) \<and>
         ttl (snd (store_result c L eb j rb (snd (store_result c L ea j ra s))))
           = ttl (snd (store_result c L eb j rb s)) \<and>
         store (snd (store_error c L eb j mb (snd (store_error c L ea j ma s))))
           = store (snd (store_error c L eb j mb s)) \<and>
         ttl (snd (store_error c L eb j mb (snd (store_error c L ea j ma s))))
           = ttl (snd (store_error c L eb j mb s)) \<and>
         hget (snd (store_error c L eb j mb (snd (store_result c L ea j ra s)))) key f
           = (case map_of (error_mapping c eb mb) f of
                Some v \<Rightarrow> Some v
              | None \<Rightarrow> hget (snd (store_result c L ea j ra s)) key f) \<and>
         hget (snd (store_error c L eb j mb (snd (store_result c L ea j ra s)))) key ''status''
           = Some ''error'' \<and>
         hget (snd (store_error c L eb j mb (snd (store_result c L ea j ra s)))) key ''answer''
           = Some (r_answer ra) \<and>
         hget (snd (store_error c L eb j mb (snd (store_result c L ea j ra s)))) key ''sources''
           = Some (json_dumps L (r_sources ra)) \<and>
         ttl (snd (store_error c L eb j mb (snd (store_result c L ea j ra s)))) key
           = Some (RESULT_TTL c) \<and>
         hget (snd (store_result c L eb j rb (snd (store_error c L ea j ma s)))) key f
           = (case map_of (result_mapping L rb) f of
                Some v \<Rightarrow> Some v
              | None \<Rightarrow> hget (snd (store_error c L ea j ma s)) key f) \<and>
         hget (snd (store_result c L eb j rb (snd (store_error c L ea j ma s)))) key ''status''
           = Some (r_status rb) \<and>
         hget (snd (store_result c L eb j rb (snd (store_error c L ea j ma s)))) key ''error''
           = Some ma \<and>
         ttl (snd (store_result c L eb j rb (snd (store_error c L ea j ma s)))) key
           = Some (RESULT_TTL c)"
proof -
  note sra = store_result_store [OF assms(1,2,9)] and srb = store_result_store [OF assms(5,6,9)]
    and x1 = store_error_store [OF assms(3,4,9)] and x2 = store_error_store [OF assms(7,8,9)]
  note hr1 = hget_store_result [OF assms(1,2,9)] and hr2 = hget_store_result [OF assms(5,6,9)]
    and hx1 = hget_store_error [OF assms(3,4,9)] and hx2 = hget_store_error [OF assms(7,8,9)]
  have a: "store (snd (store_result c L eb j rb (snd (store_result c L ea j ra s))))
           = store (snd (store_result c L eb j rb s))"
    by (simp add: sra srb same_fields_overwrite)
  have b: "ttl (snd (store_result c L eb j rb (snd (store_result c L ea j ra s))))
           = ttl (snd (store_result c L eb j rb s))"
    by (simp add: sra srb)
  have c: "store (snd (store_error c L eb j mb (snd (store_error c L ea j ma s))))
           = store (snd (store_error c L eb j mb s))"
    by (simp add: x1 x2 same_fields_overwrite)
  have d: "ttl (snd (store_error c L eb j mb (snd (store_error c L ea j ma s))))
           = ttl (snd (store_error c L eb j mb s))"
    by (simp add: x1 x2)
  have e: "hget (snd (store_error c L eb j mb (snd (store_result c L ea j ra s)))) key f
           = (case map_of (error_mapping c eb mb) f of
                Some v \<Rightarrow> Some v
              | None \<Rightarrow> hget (snd (store_result c L ea j ra s)) key f)"
    by (simp add: hx2 assms(10) cong: option.case_cong)
  have f: "hget (snd (store_error c L eb j mb (snd (store_result c L ea j ra s)))) key ''status''
           = Some ''error'' \<and>
         hget (snd (store_error c L eb j mb (snd (store_result c L ea j ra s)))) key ''answer''
           = Some (r_answer ra) \<and>
         hget (snd (store_error c L eb j mb (snd (store_result c L ea j ra s)))) key ''sources''
           = Some (json_dumps L (r_sources ra)) \<and>
         ttl (snd (store_error c L eb j mb (snd (store_result c L ea j ra s)))) key
           = Some (RESULT_TTL c)"
    by (simp add: hx2 hr1 x2 assms(10) error_mapping_def result_mapping_def)
  have g: "hget (snd (store_result c L eb j rb (snd (store_error c L ea j ma s)))) key f
           = (case map_of (result_mapping L rb) f of
                Some v \<Rightarrow> Some v
              | None \<Rightarrow> hget (snd (store_error c L ea j ma s)) key f)"
    by (simp add: hr2 assms(10) cong: option.case_cong)
  have h: "hget (snd (store_result c L eb j rb (snd (store_error c L ea j ma s)))) key ''status''
           = Some (r_status rb) \<and>
         hget (snd (store_result c L eb j rb (snd (store_error c L ea j ma s)))) key ''error''
           = Some ma \<and>
         ttl (snd (store_result c L eb j rb (snd (store_error c L ea j ma s)))) key
           = Some (RESULT_TTL c)"
    by (simp add: hr2 hx1 srb assms(10) error_mapping_def result_mapping_def)
  from a b c d e f g h show ?thesis by blast
qed

theorem second_write_sets_its_fields_witness:
  "redis_fault stub_env At_result_hset = None \<and> redis_fault stub_env At_result_expire = None \<and>
   redis_fault stub_env At_error_hset = None \<and> redis_fault stub_env At_error_expire = None \<and>
   0 < RESULT_TTL default_config \<and>
   hget (snd (store_error default_config stub_lib stub_env (JStr ''job_abc123'') ''boom''
          (snd (store_result default_config stub_lib stub_env (JStr ''job_abc123'')
                  sample_result (idle_state [])))))
     ''rag:result:job_abc123'' ''status'' = Some ''error'' \<and>
   hget (snd (store_error default_config stub_lib stub_env (JStr ''job_abc123'') ''boom''
          (snd (store_result default_config stub_lib stub_env (JStr ''job_abc123'')
                  sample_result (idle_state [])))))
     ''rag:result:job_abc123'' ''answer'' = Some ''30 days'' \<and>
   hget (snd (store_result default_config stub_lib stub_env (JStr ''job_abc123'') sample_result
          (snd (store_error default_config stub_lib stub_env (JStr ''job_abc123'')
                  ''boom'' (idle_state [])))))
     ''rag:result:job_abc123'' ''error'' = Some ''boom''"
proof -
  have h: "redis_fault stub_env At_result_hset = None" "redis_fault stub_env At_result_expire = None"
    "redis_fault stub_env At_error_hset = None" "redis_fault stub_env At_error_expire = None"
    by simp_all
  have t: "0 < RESULT_TTL default_config" by simp
  have k: "''rag:result:job_abc123'' = RESULT_PREFIX default_config @ fmt stub_lib (JStr ''job_abc123'')"
    by (simp add: fmt_def)
  note w = second_write_sets_its_fields [OF h h t k, where ra = sample_result
        and rb = sample_result and s = "idle_state []" and ma = "''boom''" and mb = "''boom''"
        and f = "''worker_id''"]
  have a: "r_answer sample_result = ''30 days''" by (simp add: sample_result_def)
  show ?thesis
    using w by (simp add: a)
qed

text \<open>
  C2 as stated fails: after a success write followed by an error write the field
  \<open>answer\<close> still reads the answer of the first write, while the error write alone
  leaves no such field.
\<close>

theorem error_after_success_keeps_answer_counterexample:
  "hget (snd (store_error default_config stub_lib stub_env (JStr ''job_abc123'') ''boom''
          (snd (store_result default_config stub_lib stub_env (JStr ''job_abc123'')
                  sample_result (idle_state [])))))
     ''rag:result:job_abc123'' ''answer'' = Some ''30 days'' \<and>
   hget (snd (store_error default_config stub_lib stub_env (JStr ''job_abc123'') ''boom''
          (idle_state [])))
     ''rag:result:job_abc123'' ''answer'' = None"
proof -
  have h: "redis_fault stub_env At_result_hset = None" "redis_fault stub_env At_result_expire = None"
    "redis_fault stub_env At_error_hset = None" "redis_fault stub_env At_error_expire = None"
    by simp_all
  have t: "0 < RESULT_TTL default_config" by simp
  show ?thesis
    by (simp add: hget_store_error [OF h(3,4) t] hget_store_result [OF h(1,2) t]
        fmt_def error_mapping_def result_mapping_def sample_result_def)
qed

section \<open>The order of the queue\<close>

lemma drain_Nil: "drain [] = []"
  by (simp add: drain.simps [of "[]"] redis_brpop_def)

lemma drain_snoc: "drain (q @ [x]) = x # drain q"
  by (simp add: drain.simps [of "q @ [x]"] redis_brpop_def)

lemma drain_rev: "drain q = rev q"
  by (induction q rule: rev_induct) (simp_all add: drain_Nil drain_snoc)

lemma fold_lpush: "fold (\<lambda>i. redis_lpush (f i)) is q = rev (map f is) @ q"
  by (induction "is" arbitrary: q) (simp_all add: redis_lpush_def)

lemma push_jobs_drain:
  assumes "push_jobs L P questions count randomize q = (None, q')"
  shows "drain q' = drain q @ pushed_payloads L P questions count randomize"
  using assms
  by (auto simp add: push_jobs_def pushed_payloads_def fold_lpush drain_rev split: if_splits)

lemma rev_butlast: "rev (butlast q) = tl (rev q)"
  by (induction q rule: rev_induct) simp_all

lemma client_brpop_oldest:
  assumes "queue s \<noteq> []" "redis_fault e At_brpop = None"
  shows "fst (client_brpop c e s) = Inr (Some (hd (drain (queue s))))"
    and "drain (queue (snd (client_brpop c e s))) = tl (drain (queue s))"
  using assms
  by (simp_all add: client_brpop_def redis_brpop_def Let_def emit_def drain_rev hd_rev
      rev_butlast)

lemma client_brpop_empty:
  assumes "queue s = []" "redis_fault e At_brpop = None"
  shows "fst (client_brpop c e s) = Inr None"
    and "queue (snd (client_brpop c e s)) = []"
  using assms
  by (simp_all add: client_brpop_def redis_brpop_def Let_def emit_def)

lemma iteration_empty_queue:
  assumes "queue s = []" "redis_fault e At_brpop = None"
  shows "same_effects (iteration c L e s) s"
  by (simp add: same_effects_def iteration_fields iteration_body_empty [OF assms] emit_def)

text \<open>
  C7. The producer pushes with \<open>LPUSH\<close> at the head of the list and the worker pops
  with \<open>BRPOP\<close> from its tail. So the payloads \<open>push_jobs\<close> pushes are delivered to
  pops in the order of the pushes, after the payloads that were pending before; a pop
  the store serves on a non-empty queue returns the oldest pending payload and leaves the
  others in their order; and a pop on an empty queue returns nil, not an error, and the
  pass of the loop changes nothing.
\<close>

theorem queue_is_fifo:
  "(push_jobs L P questions count randomize q = (None, q') \<longrightarrow>
      drain q' = drain q @ pushed_payloads L P questions count randomize) \<and>
   (queue s \<noteq> [] \<and> redis_fault e At_brpop = None \<longrightarrow>
      fst (client_brpop c e s) = Inr (Some (hd (drain (queue s)))) \<and>
      drain (queue (snd (client_brpop c e s))) = tl (drain (queue s))) \<and>
   (queue s = [] \<and> redis_fault e At_brpop = None \<longrightarrow>
      fst (client_brpop c e s) = Inr None \<and>
      queue (snd (client_brpop c e s)) = [] \<and>
      same_effects (iteration c L e s) s)"
proof (intro conjI impI)
  assume "push_jobs L P questions count randomize q = (None, q')"
  then show "drain q' = drain q @ pushed_payloads L P questions count randomize"
    by (rule push_jobs_drain)
next
  assume h: "queue s \<noteq> [] \<and> redis_fault e At_brpop = None"
  then show "fst (client_brpop c e s) = Inr (Some (hd (drain (queue s))))"
    by (simp add: client_brpop_oldest)
  from h show "drain (queue (snd (client_brpop c e s))) = tl (drain (queue s))"
    by (simp add: client_brpop_oldest)
next
  assume h: "queue s = [] \<and> redis_fault e At_brpop = None"
  then show "fst (client_brpop c e s) = Inr None"
    by (simp add: client_brpop_empty)
  from h show "queue (snd (client_brpop c e s)) = []"
    by (simp add: client_brpop_empty)
  from h show "same_effects (iteration c L e s) s"
    by (simp add: iteration_empty_queue)
qed

lemma three_passes: "[0..<3] = [0, 1, 2::nat]"
  by (simp add: upt_rec)

theorem queue_is_fifo_witness:
  "push_jobs producer_lib sample_producer [''Q1'', ''Q2''] 3 False [''older'']
     = (None, [''job_8c9d0e1f'', ''job_4e5f6a7b'', ''job_0a1b2c3d'', ''older'']) \<and>
   drain [''job_8c9d0e1f'', ''job_4e5f6a7b'', ''job_0a1b2c3d'', ''older'']
     = [''older'', ''job_0a1b2c3d'', ''job_4e5f6a7b'', ''job_8c9d0e1f''] \<and>
   pushed_payloads producer_lib sample_producer [''Q1'', ''Q2''] 3 False
     = [''job_0a1b2c3d'', ''job_4e5f6a7b'', ''job_8c9d0e1f''] \<and>
   queue (idle_state [''job_0a1b2c3d'', ''older'']) \<noteq> [] \<and>
   redis_fault stub_env At_brpop = None \<and>
   fst (client_brpop default_config stub_env (idle_state [''job_0a1b2c3d'', ''older'']))
     = Inr (Some ''older'') \<and>
   queue (idle_state []) = [] \<and>
   fst (client_brpop default_config stub_env (idle_state [])) = Inr None"
proof -
  have p: "pushed_payloads producer_lib sample_producer [''Q1'', ''Q2''] 3 False
     = [''job_0a1b2c3d'', ''job_4e5f6a7b'', ''job_8c9d0e1f'']"
    by (simp add: pushed_payloads_def three_passes make_job_def producer_lib_def
        sample_producer_def Let_def)
  have h: "push_jobs producer_lib sample_producer [''Q1'', ''Q2''] 3 False [''older'']
     = (None, [''job_8c9d0e1f'', ''job_4e5f6a7b'', ''job_0a1b2c3d'', ''older''])"
    by (simp add: push_jobs_def three_passes make_job_def producer_lib_def
        sample_producer_def Let_def redis_lpush_def)
  have d: "drain [''older''] = [''older'']"
    using drain_snoc [of "[]" "''older''"] by (simp add: drain_Nil)
  have dq: "drain [''job_0a1b2c3d'', ''older''] = [''older'', ''job_0a1b2c3d'']"
    by (simp add: drain_rev)
  show ?thesis
    using h p d dq
      queue_is_fifo [where L = producer_lib and P = sample_producer
        and questions = "[''Q1'', ''Q2'']" and count = 3 and randomize = False
        and q = "[''older'']"
        and q' = "[''job_8c9d0e1f'', ''job_4e5f6a7b'', ''job_0a1b2c3d'', ''older'']"
        and s = "idle_state [''job_0a1b2c3d'', ''older'']" and e = stub_env
        and c = default_config]
      queue_is_fifo [where L = producer_lib and P = sample_producer
        and questions = "[''Q1'', ''Q2'']" and count = 3 and randomize = False
        and q = "[''older'']"
        and q' = "[''job_8c9d0e1f'', ''job_4e5f6a7b'', ''job_0a1b2c3d'', ''older'']"
        and s = "idle_state []" and e = stub_env and c = default_config]
    by simp
qed

section \<open>Jobs without a job_id\<close>

lemma iteration_writes_only_its_key:
  assumes "queue s \<noteq> []" and "redis_fault e At_brpop = None"
    and "json_loads L (last (queue s)) = Some (JObj d)"
    and "key = RESULT_PREFIX c @ fmt L (dict_get d ''job_id'' (JStr ''unknown''))"
  shows "filter (writes_elsewhere key) (trace (iteration c L e s))
           = filter (writes_elsewhere key) (trace s)"
  by (simp add: iteration_filter iteration_body_claimed [OF assms(1-3)] job_finally_filter
      deliver_filter job_try_filter job_claimed_filter assms(4))

text \<open>
  C10. For every popped payload that decodes to an object with no \<open>job_id\<close> and a
  non-empty string \<open>question\<close>, the worker processes the job under the literal
  \<open>job_id\<close> \<open>unknown\<close>: on every path, every write of the pass goes to the key
  \<open>RESULT_PREFIX + unknown\<close>; when the pipeline answers and the store accepts the
  write, the completed record is under that key, and when the pipeline fails and the store
  accepts the write, the error record is. Two such jobs in a row therefore write to the
  same key, and after the second the fields it wrote read the second job's values.
\<close>

theorem missing_job_id_is_unknown:
  assumes "queue s \<noteq> []" and "redis_fault e At_brpop = None"
    and "json_loads L (last (queue s)) = Some (JObj d)"
    and "map_of d ''job_id'' = None"
    and "map_of d ''question'' = Some (JStr q)" and "q \<noteq> []"
    and "key = RESULT_PREFIX c @ ''unknown''"
  shows "filter (writes_elsewhere key) (trace (iteration c L e s))
           = filter (writes_elsewhere key) (trace s) \<and>
         (rag_answer e (JStr q) = Inr (a, srcs) \<and> redis_fault e At_result_hset = None \<and>
          redis_fault e At_result_expire = None \<and> 0 < RESULT_TTL c \<longrightarrow>
            hget (iteration c L e s) key ''status'' = Some ''completed'' \<and>
            hget (iteration c L e s) key ''answer'' = Some a \<and>
            filter is_write (trace (iteration c L e s)) = filter is_write (trace s) @
              [Cmd (HSET key [(''status'', ''completed''), (''answer'', a),
                              (''sources'', json_dumps L srcs), (''worker_id'', WORKER_ID c),
                              (''completed_at'', utcnow_completed e)]),
               Cmd (EXPIRE key (RESULT_TTL c))]) \<and>
         (rag_answer e (JStr q) = Inl x \<and> redis_fault e At_error_hset = None \<and>
          redis_fault e At_error_expire = None \<and> 0 < RESULT_TTL c \<longrightarrow>
            hget (iteration c L e s) key ''status'' = Some ''error'' \<and>
            hget (iteration c L e s) key ''error'' = Some (str_exn x) \<and>
            filter is_write (trace (iteration c L e s)) = filter is_write (trace s) @
              [Cmd (HSET key (error_mapping c e (str_exn x))),
               Cmd (EXPIRE key (RESULT_TTL c))]) \<and>
         (rag_answer e (JStr q) = Inr (a, srcs) \<and> redis_fault e At_result_hset = None \<and>
          redis_fault e At_result_expire = None \<and> 0 < RESULT_TTL c \<and>
          butlast (queue s) \<noteq> [] \<and> redis_fault e' At_brpop = None \<and>
          json_loads L (last (butlast (queue s))) = Some (JObj d') \<and>
          map_of d' ''job_id'' = None \<and>
          map_of d' ''question'' = Some (JStr q') \<and> q' \<noteq> [] \<and>
          rag_answer e' (JStr q') = Inr (b, srcs') \<and> redis_fault e' At_result_hset = None \<and>
          redis_fault e' At_result_expire = None \<longrightarrow>
            hget (iteration c L e' (iteration c L e s)) key ''answer'' = Some b \<and>
            hget (iteration c L e' (iteration c L e s)) key ''completed_at''
              = Some (utcnow_completed e') \<and>
            filter is_write (trace (iteration c L e' (iteration c L e s)))
              = filter is_write (trace s) @
                [Cmd (HSET key [(''status'', ''completed''), (''answer'', a),
                                (''sources'', json_dumps L srcs), (''worker_id'', WORKER_ID c),
                                (''completed_at'', utcnow_completed e)]),
                 Cmd (EXPIRE key (RESULT_TTL c)),
                 Cmd (HSET key [(''status'', ''completed''), (''answer'', b),
                                (''sources'', json_dumps L srcs'), (''worker_id'', WORKER_ID c),
                                (''completed_at'', utcnow_completed e')]),
                 Cmd (EXPIRE key (RESULT_TTL c))])"
proof -
  have qd: "dict_get d ''question'' (JStr []) = JStr q"
    and jd: "dict_get d ''job_id'' (JStr ''unknown'') = JStr ''unknown''"
    using assms(4,5) by (simp_all add: dict_get_def)
  have k: "key = RESULT_PREFIX c @ fmt L (dict_get d ''job_id'' (JStr ''unknown''))"
    by (simp add: jd fmt_def assms(7))
  have g4: "truthy (dict_get d ''question'' (JStr []))" using assms(6) by (simp add: qd)
  have g5: "slice50 (dict_get d ''question'' (JStr [])) = Inr (JStr (take 50 q))"
    by (simp add: qd)
  have one: "filter (writes_elsewhere key) (trace (iteration c L e s))
           = filter (writes_elsewhere key) (trace s)"
    by (rule iteration_writes_only_its_key [OF assms(1-3) k])
  have ok: "hget (iteration c L e s) key ''status'' = Some ''completed'' \<and>
            hget (iteration c L e s) key ''answer'' = Some a \<and>
            filter is_write (trace (iteration c L e s)) = filter is_write (trace s) @
              [Cmd (HSET key [(''status'', ''completed''), (''answer'', a),
                              (''sources'', json_dumps L srcs), (''worker_id'', WORKER_ID c),
                              (''completed_at'', utcnow_completed e)]),
               Cmd (EXPIRE key (RESULT_TTL c))]"
    if h: "rag_answer e (JStr q) = Inr (a, srcs)" "redis_fault e At_result_hset = None"
      "redis_fault e At_result_expire = None" "0 < RESULT_TTL c"
  proof -
    have g6: "rag_answer e (dict_get d ''question'' (JStr [])) = Inr (a, srcs)"
      using h(1) by (simp add: qd)
    note r = iteration_completed [OF assms(1-3) g4 g5 g6 h(2-4) k refl]
    show ?thesis by (simp add: r)
  qed
  have err: "hget (iteration c L e s) key ''status'' = Some ''error'' \<and>
            hget (iteration c L e s) key ''error'' = Some (str_exn x) \<and>
            filter is_write (trace (iteration c L e s)) = filter is_write (trace s) @
              [Cmd (HSET key (error_mapping c e (str_exn x))),
               Cmd (EXPIRE key (RESULT_TTL c))]"
    if h: "rag_answer e (JStr q) = Inl x" "redis_fault e At_error_hset = None"
      "redis_fault e At_error_expire = None" "0 < RESULT_TTL c"
  proof -
    have g6: "rag_answer e (dict_get d ''question'' (JStr [])) = Inl x"
      using h(1) by (simp add: qd)
    note r = iteration_pipeline_failed [OF assms(1-3) g4 g5 g6 h(2-4) k refl]
    show ?thesis by (simp add: r) (simp add: error_mapping_def)
  qed
  have two: "hget (iteration c L e' (iteration c L e s)) key ''answer'' = Some b \<and>
            hget (iteration c L e' (iteration c L e s)) key ''completed_at''
              = Some (utcnow_completed e') \<and>
            filter is_write (trace (iteration c L e' (iteration c L e s)))
              = filter is_write (trace s) @
                [Cmd (HSET key [(''status'', ''completed''), (''answer'', a),
                                (''sources'', json_dumps L srcs), (''worker_id'', WORKER_ID c),
                                (''completed_at'', utcnow_completed e)]),
                 Cmd (EXPIRE key (RESULT_TTL c)),
                 Cmd (HSET key [(''status'', ''completed''), (''answer'', b),
                                (''sources'', json_dumps L srcs'), (''worker_id'', WORKER_ID c),
                                (''completed_at'', utcnow_completed e')]),
                 Cmd (EXPIRE key (RESULT_TTL c))]"
    if h: "rag_answer e (JStr q) = Inr (a, srcs)" "redis_fault e At_result_hset = None"
      "redis_fault e At_result_expire = None" "0 < RESULT_TTL c"
      "butlast (queue s) \<noteq> []" "redis_fault e' At_brpop = None"
      "json_loads L (last (butlast (queue s))) = Some (JObj d')"
      "map_of d' ''job_id'' = None" "map_of d' ''question'' = Some (JStr q')" "q' \<noteq> []"
      "rag_answer e' (JStr q') = Inr (b, srcs')" "redis_fault e' At_result_hset = None"
      "redis_fault e' At_result_expire = None"
  proof -
    let ?s' = "iteration c L e s"
    have qs: "queue ?s' = butlast (queue s)"
      by (rule iteration_of_job(4) [OF assms(1-3) refl])
    have qd': "dict_get d' ''question'' (JStr []) = JStr q'"
      and jd': "dict_get d' ''job_id'' (JStr ''unknown'') = JStr ''unknown''"
      using h(8,9) by (simp_all add: dict_get_def)
    have k': "key = RESULT_PREFIX c @ fmt L (dict_get d' ''job_id'' (JStr ''unknown''))"
      by (simp add: jd' fmt_def assms(7))
    have f1: "queue ?s' \<noteq> []" using h(5) by (simp add: qs)
    have f3: "json_loads L (last (queue ?s')) = Some (JObj d')" using h(7) by (simp add: qs)
    have f4: "truthy (dict_get d' ''question'' (JStr []))" using h(10) by (simp add: qd')
    have f5: "slice50 (dict_get d' ''question'' (JStr [])) = Inr (JStr (take 50 q'))"
      by (simp add: qd')
    have f6: "rag_answer e' (dict_get d' ''question'' (JStr [])) = Inr (b, srcs')"
      using h(11) by (simp add: qd')
    note r = iteration_completed [OF f1 h(6) f3 f4 f5 f6 h(12,13,4) k' refl]
    show ?thesis using ok [OF h(1-4)] by (simp add: r)
  qed
  from one ok err two show ?thesis by blast
qed

theorem missing_job_id_is_unknown_witness:
  "queue (idle_state [no_job_id_payload, no_job_id_payload]) \<noteq> [] \<and>
   redis_fault stub_env At_brpop = None \<and>
   json_loads stub_lib (last (queue (idle_state [no_job_id_payload, no_job_id_payload])))
     = Some no_job_id_job \<and>
   map_of [(''question'', JStr ''What is the refund policy?'')] ''job_id'' = None \<and>
   rag_answer stub_env (JStr ''What is the refund policy?'') = Inr (''30 days'', JArr []) \<and>
   rag_answer later_env (JStr ''What is the refund policy?'') = Inr (''14 days'', JArr []) \<and>
   hget (iteration default_config stub_lib stub_env
           (idle_state [no_job_id_payload, no_job_id_payload]))
     ''rag:result:unknown'' ''answer'' = Some ''30 days'' \<and>
   hget (iteration default_config stub_lib later_env
           (iteration default_config stub_lib stub_env
              (idle_state [no_job_id_payload, no_job_id_payload])))
     ''rag:result:unknown'' ''answer'' = Some ''14 days'' \<and>
   filter (writes_elsewhere ''rag:result:unknown'')
     (trace (iteration default_config stub_lib stub_env
        (idle_state [no_job_id_payload, no_job_id_payload]))) = [] \<and>
   rag_answer failing_env (JStr ''What is the refund policy?'')
     = Inl (OtherError ''Ollama call failed'') \<and>
   hget (iteration default_config stub_lib failing_env
           (idle_state [no_job_id_payload, no_job_id_payload]))
     ''rag:result:unknown'' ''status'' = Some ''error'' \<and>
   hget (iteration default_config stub_lib failing_env
           (idle_state [no_job_id_payload, no_job_id_payload]))
     ''rag:result:unknown'' ''error'' = Some ''Ollama call failed''"
proof -
  let ?d = "[(''question'', JStr ''What is the refund policy?'')]"
  let ?s = "idle_state [no_job_id_payload, no_job_id_payload]"
  have h1: "queue ?s \<noteq> []" by simp
  have h2: "redis_fault stub_env At_brpop = None" by simp
  have h3: "json_loads stub_lib (last (queue ?s)) = Some (JObj ?d)"
    by (simp add: no_job_id_job_def)
  have h4: "map_of ?d ''job_id'' = None" and h5: "map_of ?d ''question'' = Some (JStr ''What is the refund policy?'')"
    and h6: "''What is the refund policy?'' \<noteq> []"
    by simp_all
  have h7: "''rag:result:unknown'' = RESULT_PREFIX default_config @ ''unknown''" by simp
  have g2: "redis_fault failing_env At_brpop = None" by simp
  show ?thesis
    using missing_job_id_is_unknown [OF h1 h2 h3 h4 h5 h6 h7, where a = "''30 days''"
        and srcs = "JArr []" and e' = later_env and d' = ?d
        and q' = "''What is the refund policy?''" and b = "''14 days''" and srcs' = "JArr []"
        and x = "OtherError []"]
      missing_job_id_is_unknown [OF h1 g2 h3 h4 h5 h6 h7, where a = "''30 days''"
        and srcs = "JArr []" and e' = later_env and d' = ?d
        and q' = "''What is the refund policy?''" and b = "''14 days''" and srcs' = "JArr []"
        and x = "OtherError ''Ollama call failed''"]
    by (simp add: no_job_id_job_def)
qed

section \<open>Signals and the loop\<close>

subsection \<open>Nothing but the handler reads or writes the signal\<close>

lemma no_signal_read [simp]:
  "client_brpop c (e\<lparr>signal_at := v\<rparr>) s = client_brpop c e s"
  "client_hset (e\<lparr>signal_at := v\<rparr>) at k m s = client_hset e at k m s"
  "client_expire (e\<lparr>signal_at := v\<rparr>) at k n s = client_expire e at k n s"
  "process_job c L (e\<lparr>signal_at := v\<rparr>) d s = process_job c L e d s"
  by (simp_all add: client_brpop_def client_hset_def client_expire_def process_job_def
      Let_def split_beta cong: sum.case_cong option.case_cong)

lemma no_signal_read_store [simp]:
  "store_result c L (e\<lparr>signal_at := v\<rparr>) j r s = store_result c L e j r s"
  "store_error c L (e\<lparr>signal_at := v\<rparr>) j msg s = store_error c L e j msg s"
  by (simp_all add: store_result_def store_error_def error_mapping_def Let_def split_beta
      cong: option.case_cong)

lemma no_signal_read_except [simp]:
  "job_except c L (e\<lparr>signal_at := v\<rparr>) j x s = job_except c L e j x s"
  by (simp add: job_except_def Let_def split_beta cong: option.case_cong)

lemma no_signal_read_try [simp]:
  "job_try c L (e\<lparr>signal_at := v\<rparr>) j d s = job_try c L e j d s"
  by (simp add: job_try_def Let_def split_beta cong: option.case_cong sum.case_cong)

subsection \<open>The operations respect states that differ in flag and trace only\<close>

lemma same_effects_refl [simp]: "same_effects s s"
  by (simp add: same_effects_def)

lemma same_effects_silent [simp]:
  "same_effects (emit ev s) t = same_effects s t"
  "same_effects s (emit ev t) = same_effects s t"
  "same_effects (deliver e p s) t = same_effects s t"
  "same_effects s (deliver e p t) = same_effects s t"
  by (simp_all add: same_effects_def emit_def)

lemma same_effects_prims:
  assumes "same_effects s t"
  shows "same_effects (redis_hset k m s) (redis_hset k m t)"
    and "same_effects (redis_expire k n s) (redis_expire k n t)"
    and "same_effects (increment_inflight s) (increment_inflight t)"
    and "same_effects (decrement_inflight s) (decrement_inflight t)"
    and "same_effects (labels_inc l s) (labels_inc l t)"
    and "same_effects (observe s) (observe t)"
    and "same_effects (job_finally L j s) (job_finally L j t)"
    and "same_effects (s\<lparr>queue := q\<rparr>) (t\<lparr>queue := q\<rparr>)"
  using assms by (simp_all add: same_effects_def prim_defs)

lemma client_brpop_rel:
  assumes "same_effects s t"
  shows "fst (client_brpop c e s) = fst (client_brpop c e t)"
    and "same_effects (snd (client_brpop c e s)) (snd (client_brpop c e t))"
  using assms
  by (simp_all add: client_brpop_def Let_def split_beta same_effects_def emit_def
      split: option.splits)

lemma client_hset_rel:
  assumes "same_effects s t"
  shows "fst (client_hset e at k m s) = fst (client_hset e at k m t)"
    and "same_effects (snd (client_hset e at k m s)) (snd (client_hset e at k m t))"
  using assms
  by (simp_all add: client_hset_def Let_def same_effects_prims split: option.splits)

lemma client_expire_rel:
  assumes "same_effects s t"
  shows "fst (client_expire e at k n s) = fst (client_expire e at k n t)"
    and "same_effects (snd (client_expire e at k n s)) (snd (client_expire e at k n t))"
  using assms
  by (simp_all add: client_expire_def Let_def same_effects_prims split: option.splits)

lemma store_result_rel:
  assumes "same_effects s t"
  shows "fst (store_result c L e j r s) = fst (store_result c L e j r t) \<and>
         same_effects (snd (store_result c L e j r s)) (snd (store_result c L e j r t))"
proof -
  let ?k = "RESULT_PREFIX c @ fmt L j"
  note a = client_hset_rel [OF assms, of e At_result_hset ?k "result_mapping L r"]
  note b = client_expire_rel [OF a(2), of e At_result_expire ?k "RESULT_TTL c"]
  show ?thesis
    using a(2) b(2) by (simp add: store_result_def Let_def split_beta a(1) b(1) split: option.splits)
qed

lemma store_error_rel:
  assumes "same_effects s t"
  shows "fst (store_error c L e j msg s) = fst (store_error c L e j msg t) \<and>
         same_effects (snd (store_error c L e j msg s)) (snd (store_error c L e j msg t))"
proof -
  let ?k = "RESULT_PREFIX c @ fmt L j"
  note a = client_hset_rel [OF assms, of e At_error_hset ?k "error_mapping c e msg"]
  note b = client_expire_rel [OF a(2), of e At_error_expire ?k "RESULT_TTL c"]
  show ?thesis
    using a(2) b(2) by (simp add: store_error_def Let_def split_beta a(1) b(1) split: option.splits)
qed

lemma process_job_rel:
  assumes "same_effects s t"
  shows "fst (process_job c L e d s) = fst (process_job c L e d t) \<and>
         same_effects (snd (process_job c L e d s)) (snd (process_job c L e d t))"
  using assms
  by (simp add: process_job_def Let_def split_beta split: sum.splits)

lemma job_except_rel:
  assumes "same_effects s t"
  shows "fst (job_except c L e j x s) = fst (job_except c L e j x t) \<and>
         same_effects (snd (job_except c L e j x s)) (snd (job_except c L e j x t))"
proof -
  let ?s1 = "emit (Print (Log_job_failed (fmt L j) (str_exn x))) s"
  let ?t1 = "emit (Print (Log_job_failed (fmt L j) (str_exn x))) t"
  have "same_effects ?s1 ?t1" using assms by simp
  note a = store_error_rel [OF this, of c L e j "str_exn x"]
  show ?thesis
    using a
    by (simp add: job_except_def Let_def split_beta record_job_error_def same_effects_prims
        split: option.splits)
qed

lemma job_try_rel:
  assumes "same_effects s t"
  shows "fst (job_try c L e j d s) = fst (job_try c L e j d t) \<and>
         same_effects (snd (job_try c L e j d s)) (snd (job_try c L e j d t))"
proof -
  note p = process_job_rel [OF assms, of c L e d]
  show ?thesis
  proof (cases "fst (process_job c L e d t)")
    case (Inl x)
    then show ?thesis
      using p job_except_rel [of "snd (process_job c L e d s)" "snd (process_job c L e d t)"]
      by (simp add: job_try_def split_beta)
  next
    case (Inr r)
    note q = store_result_rel [of "snd (process_job c L e d s)" "snd (process_job c L e d t)"
        c L e j r]
    show ?thesis
    proof (cases "fst (store_result c L e j r (snd (process_job c L e d t)))")
      case None
      then show ?thesis
        using p q Inr
        by (simp add: job_try_def split_beta record_job_success_def same_effects_prims)
    next
      case (Some x)
      then show ?thesis
        using p q Inr
          job_except_rel [of "snd (store_result c L e j r (snd (process_job c L e d s)))"
            "snd (store_result c L e j r (snd (process_job c L e d t)))"]
        by (simp add: job_try_def split_beta)
    qed
  qed
qed

lemma iteration_body_rel:
  "fst (iteration_body c L e s) = fst (iteration_body c L (e\<lparr>signal_at := None\<rparr>) s) \<and>
   same_effects (snd (iteration_body c L e s))
     (snd (iteration_body c L (e\<lparr>signal_at := None\<rparr>) s))"
proof -
  have s0: "same_effects (deliver e In_pop s) s" by simp
  note b = client_brpop_rel [OF s0, of c e]
  let ?s1 = "snd (client_brpop c e (deliver e In_pop s))"
  let ?t1 = "snd (client_brpop c e s)"
  show ?thesis
  proof (cases "fst (client_brpop c e s)")
    case (Inl x)
    then show ?thesis using b by (simp add: iteration_body_def split_beta)
  next
    case (Inr popped)
    show ?thesis
    proof (cases popped)
      case None
      then show ?thesis using b Inr by (simp add: iteration_body_def split_beta)
    next
      case (Some job_json)
      show ?thesis
      proof (cases "json_loads L job_json")
        case None
        then show ?thesis
          using b Inr Some
          by (simp add: iteration_body_def split_beta record_job_error_def same_effects_prims)
      next
        case (Some v)
        note loaded = this
        show ?thesis
        proof (cases v)
          case (JObj d)
          let ?j = "dict_get d ''job_id'' (JStr ''unknown'')"
          have "same_effects (deliver e In_job (increment_inflight ?s1)) (increment_inflight ?t1)"
            using b(2) by (simp add: same_effects_prims)
          note t = job_try_rel [OF this, of c L e ?j d]
          show ?thesis
            using b Inr \<open>popped = Some job_json\<close> loaded JObj t
            by (simp add: iteration_body_def split_beta Let_def same_effects_prims)
        qed (use b Inr \<open>popped = Some job_json\<close> loaded in
              \<open>simp_all add: iteration_body_def split_beta\<close>)
      qed
    qed
  qed
qed

lemma iteration_rel:
  "same_effects (iteration c L e s) (iteration c L (e\<lparr>signal_at := None\<rparr>) s)"
  using iteration_body_rel [of c L e s]
  by (simp add: iteration_def split_beta split: option.splits)

subsection \<open>The loop\<close>

lemma iteration_shutdown_no_signal:
  "signal_at e = None \<Longrightarrow> shutdown (iteration c L e s) = shutdown s"
  by (simp add: iteration_fields iteration_body_def client_brpop_def Let_def split_beta
      prim_defs split: sum.splits option.splits json.splits)

lemma main_loop_exit: "main_loop c L es s = Exited s' \<Longrightarrow> shutdown s'"
  by (induction es arbitrary: s) (auto simp add: emit_def split: if_splits)

lemma main_loop_running:
  "\<not> shutdown s \<Longrightarrow> \<forall>e \<in> set es. signal_at e = None \<Longrightarrow>
   main_loop c L es s = Running (fold (iteration c L) es s)"
  by (induction es arbitrary: s) (simp_all add: iteration_shutdown_no_signal)

lemma iteration_catches:
  assumes "fst (iteration_body c L e s) = Some x"
  shows "trace (iteration c L e s) = trace (snd (iteration_body c L e s)) @
     [Print (if is_ConnectionError x then Log_redis_connection_error (str_exn x)
             else Log_unexpected_error (str_exn x)),
      Sleep (if is_ConnectionError x then 5 else 1)]"
  using assms by (simp add: iteration_def split_beta emit_def)

text \<open>
  C8. The loop leaves only with the shutdown flag set, and only a signal sets it: as long
  as no signal arrives, whatever the store and the pipeline raise, the loop is still
  running after any number of passes. An exception that escapes the body of a pass is
  caught by the handlers of the outer \<open>try\<close>, which log it and sleep (5 seconds after a
  connection error, 1 second otherwise). The body of a pass never reads the flag: a pass
  during which a signal arrives leaves the queue, the store, every time-to-live and every
  metric exactly as the same pass without the signal does. So a job in flight when the
  signal arrives is processed, recorded and accounted to the end, and the loop leaves at
  the next test of the flag.
\<close>

theorem loop_exits_only_on_shutdown:
  "(main_loop c L es s = Exited s' \<longrightarrow> shutdown s') \<and>
   (\<not> shutdown s \<and> (\<forall>e \<in> set es. signal_at e = None) \<longrightarrow>
      main_loop c L es s = Running (fold (iteration c L) es s)) \<and>
   (fst (iteration_body c L e s) = Some x \<longrightarrow>
      trace (iteration c L e s) = trace (snd (iteration_body c L e s)) @
        [Print (if is_ConnectionError x then Log_redis_connection_error (str_exn x)
                else Log_unexpected_error (str_exn x)),
         Sleep (if is_ConnectionError x then 5 else 1)]) \<and>
   same_effects (iteration c L e s) (iteration c L (e\<lparr>signal_at := None\<rparr>) s) \<and>
   (\<not> shutdown s \<and> queue s \<noteq> [] \<and> redis_fault e At_brpop = None \<and>
    json_loads L (last (queue s)) = Some (JObj d) \<and> signal_at e = Some (p, n) \<longrightarrow>
      main_loop c L (e # rest) s
        = Exited (emit (Print Log_shutdown_complete) (iteration c L e s)) \<and>
      agent_job_duration (iteration c L e s) = Suc (agent_job_duration s) \<and>
      agent_inflight (iteration c L e s) = agent_inflight s)"
proof -
  have five: "main_loop c L (e # rest) s
        = Exited (emit (Print Log_shutdown_complete) (iteration c L e s)) \<and>
      agent_job_duration (iteration c L e s) = Suc (agent_job_duration s) \<and>
      agent_inflight (iteration c L e s) = agent_inflight s"
    if h: "\<not> shutdown s" "queue s \<noteq> []" "redis_fault e At_brpop = None"
      "json_loads L (last (queue s)) = Some (JObj d)" "signal_at e = Some (p, n)"
  proof -
    note it = iteration_of_job [OF h(2-4) refl, of c]
    have "shutdown (iteration c L e s)" using it(8) h(5) by simp
    then have "main_loop c L rest (iteration c L e s)
        = Exited (emit (Print Log_shutdown_complete) (iteration c L e s))"
      by (cases rest) simp_all
    then show ?thesis
      using h(1) by (simp add: it(5) iteration_inflight_unchanged)
  qed
  show ?thesis
    using main_loop_exit [of c L es s s'] main_loop_running [of s es c L]
      iteration_catches [of c L e s x] iteration_rel [of c L e s] five
    by blast
qed

theorem loop_exits_only_on_shutdown_witness:
  "\<not> shutdown (idle_state [job_abc123_payload, job_abc123_payload]) \<and>
   signal_at signalled_env = Some (In_job, 15) \<and>
   json_loads stub_lib (last (queue (idle_state [job_abc123_payload, job_abc123_payload])))
     = Some job_abc123 \<and>
   main_loop default_config stub_lib [signalled_env, stub_env]
       (idle_state [job_abc123_payload, job_abc123_payload])
     = Exited (emit (Print Log_shutdown_complete)
         (iteration default_config stub_lib signalled_env
            (idle_state [job_abc123_payload, job_abc123_payload]))) \<and>
   shutdown (emit (Print Log_shutdown_complete)
     (iteration default_config stub_lib signalled_env
        (idle_state [job_abc123_payload, job_abc123_payload]))) \<and>
   queue (iteration default_config stub_lib signalled_env
       (idle_state [job_abc123_payload, job_abc123_payload])) = [job_abc123_payload] \<and>
   hget (iteration default_config stub_lib signalled_env
       (idle_state [job_abc123_payload, job_abc123_payload]))
     ''rag:result:job_abc123'' ''status'' = Some ''completed'' \<and>
   agent_job_duration (iteration default_config stub_lib signalled_env
       (idle_state [job_abc123_payload, job_abc123_payload])) = 1 \<and>
   signal_at unreachable_env = None \<and> signal_at stub_env = None \<and>
   main_loop default_config stub_lib [unreachable_env, stub_env]
       (idle_state [job_abc123_payload, job_abc123_payload])
     = Running (iteration default_config stub_lib stub_env
         (iteration default_config stub_lib unreachable_env
            (idle_state [job_abc123_payload, job_abc123_payload]))) \<and>
   fst (iteration_body default_config stub_lib unreachable_env
       (idle_state [job_abc123_payload, job_abc123_payload]))
     = Some (ConnectionError ''Connection refused'') \<and>
   trace (iteration default_config stub_lib unreachable_env
       (idle_state [job_abc123_payload, job_abc123_payload]))
     = [Cmd (BRPOP ''rag:jobs'' 5),
        Print (Log_redis_connection_error ''Connection refused''), Sleep 5]"
proof -
  let ?d = "[(''job_id'', JStr ''job_abc123''),
             (''question'', JStr ''What is the refund policy?''),
             (''submitted_at'', JStr ''2024-01-01T00:00:00Z'')]"
  let ?s = "idle_state [job_abc123_payload, job_abc123_payload]"
  have h1: "queue ?s \<noteq> []" by simp
  have h2: "redis_fault signalled_env At_brpop = None" by simp
  have h3: "json_loads stub_lib (last (queue ?s)) = Some (JObj ?d)"
    by (simp add: job_abc123_def)
  have h4: "truthy (dict_get ?d ''question'' (JStr []))"
    and h5: "slice50 (dict_get ?d ''question'' (JStr [])) = Inr (JStr ''What is the refund policy?'')"
    and h6: "rag_answer signalled_env (dict_get ?d ''question'' (JStr [])) = Inr (''30 days'', JArr [])"
    by (simp_all add: dict_get_def)
  have h7: "redis_fault signalled_env At_result_hset = None"
    "redis_fault signalled_env At_result_expire = None" "0 < RESULT_TTL default_config"
    by simp_all
  have k: "''rag:result:job_abc123'' = RESULT_PREFIX default_config @
      fmt stub_lib (dict_get ?d ''job_id'' (JStr ''unknown''))"
    by (simp add: dict_get_def fmt_def)
  note fin = iteration_completed(1) [OF h1 h2 h3 h4 h5 h6 h7 k refl, of "''status''"]
  note q = iteration_of_job(4) [OF h1 h2 h3 refl, of default_config]
  have b: "iteration_body default_config stub_lib unreachable_env ?s
      = (Some (ConnectionError ''Connection refused''),
         emit (Cmd (BRPOP ''rag:jobs'' 5)) ?s)"
    by (simp add: iteration_body_def client_brpop_def)
  have tr: "trace (emit (Cmd (BRPOP ''rag:jobs'' 5)) ?s) = [Cmd (BRPOP ''rag:jobs'' 5)]"
    by (simp add: emit_def)
  show ?thesis
    using loop_exits_only_on_shutdown [where c = default_config and L = stub_lib
        and es = "[signalled_env, stub_env]" and s = ?s and e = signalled_env
        and s' = "emit (Print Log_shutdown_complete)
           (iteration default_config stub_lib signalled_env ?s)"
        and d = ?d and p = In_job and n = 15 and rest = "[stub_env]"
        and x = "ConnectionError ''Connection refused''"]
      loop_exits_only_on_shutdown [where c = default_config and L = stub_lib
        and es = "[unreachable_env, stub_env]" and s = ?s and e = unreachable_env
        and s' = ?s and d = ?d and p = In_job and n = 15 and rest = "[stub_env]"
        and x = "ConnectionError ''Connection refused''"]
      fin q
    by (simp add: job_abc123_def b tr)
qed

end
